theory Spec2Isabelle
  imports Main "HOL-Library.Word"
begin

section \<open>Text primitives of the host language\<close>

text \<open>
  A text of the program is a sequence of 16-bit code units. \<open>lit\<close> turns a literal of
  8-bit characters into the text with the same code units. The helpers below follow the
  string methods the chat client and the server handler call. The value of a response
  header is a byte string; it is kept as a list of 8-bit characters.
\<close>

type_synonym utf16 = "16 word list"

abbreviation U :: "char \<Rightarrow> 16 word" where
  "U c \<equiv> of_char c"

abbreviation lit :: "string \<Rightarrow> utf16" where
  "lit s \<equiv> map of_char s"

abbreviation LF :: "16 word" where
  "LF \<equiv> 0x0A"

abbreviation CR :: "16 word" where
  "CR \<equiv> 0x0D"

abbreviation BT :: "16 word" where
  "BT \<equiv> 0x60"

abbreviation DQ :: "16 word" where
  "DQ \<equiv> 0x22"

abbreviation BSL :: "16 word" where
  "BSL \<equiv> 0x5C"

definition startsWith :: "'a list \<Rightarrow> 'a list \<Rightarrow> bool" where
  "startsWith s pre = (take (length pre) s = pre)"

definition endsWith :: "'a list \<Rightarrow> 'a list \<Rightarrow> bool" where
  "endsWith s suf = (length suf \<le> length s \<and> drop (length s - length suf) s = suf)"

fun includesText :: "'a list \<Rightarrow> 'a list \<Rightarrow> bool" where
  "includesText [] needle = (needle = [])"
| "includesText (c # cs) needle = (startsWith (c # cs) needle \<or> includesText cs needle)"

text \<open>
  \<open>trim\<close> removes white space and line terminators from both ends: tab, line feed,
  vertical tab, form feed, carriage return, space, no-break space, the byte order mark,
  the line and paragraph separators and the other space separators of Unicode.
\<close>

definition isTrimSpace :: "16 word \<Rightarrow> bool" where
  "isTrimSpace c =
     (c \<in> set [0x09, 0x0A, 0x0B, 0x0C, 0x0D, 0x20, 0xA0, 0x1680, 0x2028, 0x2029, 0x202F,
                0x205F, 0x3000, 0xFEFF]
      \<or> (0x2000 \<le> c \<and> c \<le> 0x200A))"

definition trim :: "utf16 \<Rightarrow> utf16" where
  "trim s = rev (dropWhile isTrimSpace (rev (dropWhile isTrimSpace s)))"

text \<open>
  \<open>toLowerCase\<close> is applied to header values only. On the 8-bit characters of a header
  value the letters A to Z, and the accented capitals 0xC0 to 0xDE except the
  multiplication sign 0xD7, move up by 0x20.
\<close>

definition lowerChar :: "char \<Rightarrow> char" where
  "lowerChar c =
     (let n = (of_char c :: nat)
      in if (0x41 \<le> n \<and> n \<le> 0x5A) \<or> (0xC0 \<le> n \<and> n \<le> 0xDE \<and> n \<noteq> 0xD7)
         then char_of (n + 0x20) else c)"

definition toLowerCase :: "string \<Rightarrow> string" where
  "toLowerCase s = map lowerChar s"

subsection \<open>Decimal text of a status code\<close>

fun digitsOf :: "nat \<Rightarrow> utf16" where
  "digitsOf n =
     (if n < 10 then [of_nat (0x30 + n)]
      else digitsOf (n div 10) @ [of_nat (0x30 + n mod 10)])"

subsection \<open>Splitting on a separator pattern\<close>

text \<open>
  The two separator patterns of the client are sequences of single characters, some of
  them optional: \<open>/\r?\n\r?\n/\<close> between events and \<open>/\r?\n/\<close> between lines. A pattern
  is matched at the head of a text by backtracking: an optional character is taken when
  the rest of the pattern then matches, and skipped otherwise. The result is the text
  after the match.
\<close>

datatype PatItem = Req "16 word" | Opt "16 word"

fun matchAt :: "PatItem list \<Rightarrow> utf16 \<Rightarrow> utf16 option" where
  "matchAt [] s = Some s"
| "matchAt (Req c # ps) s =
     (case s of [] \<Rightarrow> None | x # r \<Rightarrow> if x = c then matchAt ps r else None)"
| "matchAt (Opt c # ps) s =
     (case (case s of [] \<Rightarrow> None | x # r \<Rightarrow> if x = c then matchAt ps r else None) of
        Some r \<Rightarrow> Some r
      | None \<Rightarrow> matchAt ps s)"

text \<open>
  \<open>s.split(pattern)\<close>: the text is scanned from left to right; where the pattern matches,
  the piece collected so far is emitted and scanning resumes after the match; the piece
  after the last match closes the result, so the result is never empty. The test on the
  length of the rest holds for every match that consumes a character, which every match
  of the two patterns here does; the recursion rests on it.
\<close>

fun splitGo :: "PatItem list \<Rightarrow> utf16 \<Rightarrow> utf16 \<Rightarrow> utf16 list" where
  "splitGo pat piece [] = [piece]"
| "splitGo pat piece (c # cs) =
     (case matchAt pat (c # cs) of
        None \<Rightarrow> splitGo pat (piece @ [c]) cs
      | Some r \<Rightarrow>
          if length r \<le> length cs then piece # splitGo pat [] r
          else splitGo pat (piece @ [c]) cs)"

definition split :: "PatItem list \<Rightarrow> utf16 \<Rightarrow> utf16 list" where
  "split pat s = splitGo pat [] s"

definition eventSep :: "PatItem list" where
  "eventSep = [Opt CR, Req LF, Opt CR, Req LF]"

definition lineSep :: "PatItem list" where
  "lineSep = [Opt CR, Req LF]"

text \<open>
  The frame splitter of the read loop: \<open>events = buffered.split(/\r?\n\r?\n/)\<close>, then
  \<open>buffered = events.pop() ?? ""\<close>. The pair is the list of complete events and the new
  buffer.
\<close>

definition splitFrames :: "utf16 \<Rightarrow> utf16 list \<times> utf16" where
  "splitFrames buffered =
     (let events = split eventSep buffered
      in case rev events of
           [] \<Rightarrow> ([], [])
         | l # front \<Rightarrow> (rev front, l))"

section \<open>Structured documents\<close>

text \<open>
  The values \<open>JSON.parse\<close> produces. A number is kept as the text it was written with,
  which stands for the floating-point value it denotes; nothing below looks inside that
  text. An object is the list of its members in source order, and a later member of the
  same name overrides an earlier one.
\<close>

datatype json =
    JNull
  | JBool bool
  | JNum utf16
  | JStr utf16
  | JArr "json list"
  | JObj "(utf16 \<times> json) list"

subsection \<open>Reading a document\<close>

definition isJsonSpace :: "16 word \<Rightarrow> bool" where
  "isJsonSpace c = (c \<in> set [0x20, 0x09, 0x0A, 0x0D])"

definition skipWs :: "utf16 \<Rightarrow> utf16" where
  "skipWs s = dropWhile isJsonSpace s"

definition isDigit :: "16 word \<Rightarrow> bool" where
  "isDigit c = (0x30 \<le> c \<and> c \<le> 0x39)"

definition hexVal :: "16 word \<Rightarrow> 16 word option" where
  "hexVal c =
     (if 0x30 \<le> c \<and> c \<le> 0x39 then Some (c - 0x30)
      else if 0x41 \<le> c \<and> c \<le> 0x46 then Some (c - 0x41 + 10)
      else if 0x61 \<le> c \<and> c \<le> 0x66 then Some (c - 0x61 + 10)
      else None)"

text \<open>The four hexadecimal digits of a \<open>\u\<close> escape name one 16-bit code unit.\<close>

definition hex4 :: "16 word \<Rightarrow> 16 word \<Rightarrow> 16 word \<Rightarrow> 16 word \<Rightarrow> 16 word option" where
  "hex4 a b c d =
     (case (hexVal a, hexVal b, hexVal c, hexVal d) of
        (Some x, Some y, Some z, Some w) \<Rightarrow> Some (((x * 16 + y) * 16 + z) * 16 + w)
      | _ \<Rightarrow> None)"

definition unescape :: "16 word \<Rightarrow> 16 word option" where
  "unescape e =
     (if e = DQ then Some DQ
      else if e = BSL then Some BSL
      else if e = U (CHR ''/'') then Some (U (CHR ''/''))
      else if e = U (CHR ''b'') then Some 0x08
      else if e = U (CHR ''f'') then Some 0x0C
      else if e = U (CHR ''n'') then Some LF
      else if e = U (CHR ''r'') then Some CR
      else if e = U (CHR ''t'') then Some 0x09
      else None)"

text \<open>The characters of a string literal after its opening quote, up to the closing one.\<close>

fun parseChars :: "utf16 \<Rightarrow> (utf16 \<times> utf16) option" where
  "parseChars [] = None"
| "parseChars (c # cs) =
     (if c = DQ then Some ([], cs)
      else if c = BSL then
        (case cs of
           [] \<Rightarrow> None
         | e # r \<Rightarrow>
             if e = U (CHR ''u'') then
               (case r of
                  h1 # h2 # h3 # h4 # r' \<Rightarrow>
                    (case hex4 h1 h2 h3 h4 of
                       None \<Rightarrow> None
                     | Some u \<Rightarrow>
                         (case parseChars r' of
                            None \<Rightarrow> None
                          | Some (s, rest) \<Rightarrow> Some (u # s, rest)))
                | _ \<Rightarrow> None)
             else
               (case unescape e of
                  None \<Rightarrow> None
                | Some u \<Rightarrow>
                    (case parseChars r of
                       None \<Rightarrow> None
                     | Some (s, rest) \<Rightarrow> Some (u # s, rest))))
      else if c < 0x20 then None
      else
        (case parseChars cs of
           None \<Rightarrow> None
         | Some (s, rest) \<Rightarrow> Some (c # s, rest)))"

text \<open>
  A number: an optional minus sign, an integer part without a leading zero, an optional
  fraction and an optional exponent. The result is the text of the number and the rest.
\<close>

definition digitsPrefix :: "utf16 \<Rightarrow> utf16 \<times> utf16" where
  "digitsPrefix s = (takeWhile isDigit s, dropWhile isDigit s)"

definition parseInt :: "utf16 \<Rightarrow> (utf16 \<times> utf16) option" where
  "parseInt s =
     (case s of
        [] \<Rightarrow> None
      | c # cs \<Rightarrow>
          if c = U (CHR ''0'') then Some ([c], cs)
          else if isDigit c then (let (ds, r) = digitsPrefix cs in Some (c # ds, r))
          else None)"

definition parseFrac :: "utf16 \<Rightarrow> (utf16 \<times> utf16) option" where
  "parseFrac s =
     (case s of
        c # cs \<Rightarrow>
          if c = U (CHR ''.'') then
            (let (ds, r) = digitsPrefix cs in if ds = [] then None else Some (c # ds, r))
          else Some ([], s)
      | [] \<Rightarrow> Some ([], s))"

definition parseExp :: "utf16 \<Rightarrow> (utf16 \<times> utf16) option" where
  "parseExp s =
     (case s of
        c # cs \<Rightarrow>
          if c = U (CHR ''e'') \<or> c = U (CHR ''E'') then
            (let (sign, cs') =
               (case cs of
                  d # r \<Rightarrow> if d = U (CHR ''+'') \<or> d = U (CHR ''-'') then ([d], r) else ([], cs)
                | [] \<Rightarrow> ([], cs));
                 (ds, r) = digitsPrefix cs'
             in if ds = [] then None else Some (c # sign @ ds, r))
          else Some ([], s)
      | [] \<Rightarrow> Some ([], s))"

definition parseNumber :: "utf16 \<Rightarrow> (utf16 \<times> utf16) option" where
  "parseNumber s =
     (let (sign, s1) =
        (case s of
           c # cs \<Rightarrow> if c = U (CHR ''-'') then ([c], cs) else ([], s)
         | [] \<Rightarrow> ([], s))
      in case parseInt s1 of
           None \<Rightarrow> None
         | Some (i, s2) \<Rightarrow>
             (case parseFrac s2 of
                None \<Rightarrow> None
              | Some (f, s3) \<Rightarrow>
                  (case parseExp s3 of
                     None \<Rightarrow> None
                   | Some (e, s4) \<Rightarrow> Some (sign @ i @ f @ e, s4))))"

definition parseWord :: "utf16 \<Rightarrow> json \<Rightarrow> utf16 \<Rightarrow> (json \<times> utf16) option" where
  "parseWord w v s = (if startsWith s w then Some (v, drop (length w) s) else None)"

text \<open>
  Values, array elements and object members. Each function returns the value read and
  the text after it. The tests \<open>length r < length s\<close> on the text left by a sub-value
  always succeed; they are what the termination argument rests on.
\<close>

function parseValue :: "utf16 \<Rightarrow> (json \<times> utf16) option"
  and parseElems :: "utf16 \<Rightarrow> (json list \<times> utf16) option"
  and parseMembers :: "utf16 \<Rightarrow> ((utf16 \<times> json) list \<times> utf16) option"
where
  "parseValue s =
     (case skipWs s of
        [] \<Rightarrow> None
      | c # cs \<Rightarrow>
          if c = U (CHR ''{'') then
            (case skipWs cs of
               [] \<Rightarrow> None
             | d # ds \<Rightarrow>
                 if d = U (CHR ''}'') then Some (JObj [], ds)
                 else (case parseMembers cs of
                         None \<Rightarrow> None
                       | Some (ms, r) \<Rightarrow> Some (JObj ms, r)))
          else if c = U (CHR ''['') then
            (case skipWs cs of
               [] \<Rightarrow> None
             | d # ds \<Rightarrow>
                 if d = U (CHR '']'') then Some (JArr [], ds)
                 else (case parseElems cs of
                         None \<Rightarrow> None
                       | Some (vs, r) \<Rightarrow> Some (JArr vs, r)))
          else if c = DQ then
            (case parseChars cs of
               None \<Rightarrow> None
             | Some (t, r) \<Rightarrow> Some (JStr t, r))
          else if c = U (CHR ''t'') then parseWord (lit ''true'') (JBool True) (c # cs)
          else if c = U (CHR ''f'') then parseWord (lit ''false'') (JBool False) (c # cs)
          else if c = U (CHR ''n'') then parseWord (lit ''null'') JNull (c # cs)
          else (case parseNumber (c # cs) of
                  None \<Rightarrow> None
                | Some (n, r) \<Rightarrow> Some (JNum n, r)))"
| "parseElems s =
     (case parseValue s of
        None \<Rightarrow> None
      | Some (v, r) \<Rightarrow>
          if length r < length s then
            (case skipWs r of
               [] \<Rightarrow> None
             | d # ds \<Rightarrow>
                 if d = U (CHR '','') then
                   (case parseElems ds of
                      None \<Rightarrow> None
                    | Some (vs, r') \<Rightarrow> Some (v # vs, r'))
                 else if d = U (CHR '']'') then Some ([v], ds)
                 else None)
          else None)"
| "parseMembers s =
     (case skipWs s of
        [] \<Rightarrow> None
      | q # qs \<Rightarrow>
          if q = DQ then
            (case parseChars qs of
               None \<Rightarrow> None
             | Some (k, r1) \<Rightarrow>
                 if length r1 < length qs then
                   (case skipWs r1 of
                      [] \<Rightarrow> None
                    | c # r2 \<Rightarrow>
                        if c = U (CHR '':'') then
                          (case parseValue r2 of
                             None \<Rightarrow> None
                           | Some (v, r3) \<Rightarrow>
                               if length r3 < length r2 then
                                 (case skipWs r3 of
                                    [] \<Rightarrow> None
                                  | d # r4 \<Rightarrow>
                                      if d = U (CHR '','') then
                                        (case parseMembers r4 of
                                           None \<Rightarrow> None
                                         | Some (ms, r5) \<Rightarrow> Some ((k, v) # ms, r5))
                                      else if d = U (CHR ''}'') then Some ([(k, v)], r4)
                                      else None)
                               else None)
                        else None)
                 else None)
          else None)"
  by pat_completeness auto
termination
proof (relation "measure (\<lambda>x. case x of
                            Inl s \<Rightarrow> 2 * length s + 1
                          | Inr (Inl s) \<Rightarrow> 2 * length s + 2
                          | Inr (Inr s) \<Rightarrow> 2 * length s + 2)", goal_cases)
  case 1
  show ?case by simp
next
  case (2 s c cs d ds)
  have "length (skipWs s) \<le> length s"
    by (simp add: skipWs_def length_dropWhile_le)
  with 2 show ?case by simp
next
  case (3 s c cs d ds)
  have "length (skipWs s) \<le> length s"
    by (simp add: skipWs_def length_dropWhile_le)
  with 3 show ?case by simp
next
  case (4 s)
  show ?case by simp
next
  case (5 s x v r d ds)
  have "length (skipWs r) \<le> length r"
    by (simp add: skipWs_def length_dropWhile_le)
  with 5 show ?case by simp
next
  case (6 s q qs x k r1 c r2)
  have "length (skipWs s) \<le> length s" "length (skipWs r1) \<le> length r1"
    by (simp_all add: skipWs_def length_dropWhile_le)
  with 6 show ?case by simp
next
  case (7 s q qs x k r1 c r2 y v r3 d r4)
  have "length (skipWs s) \<le> length s" "length (skipWs r1) \<le> length r1"
    "length (skipWs r3) \<le> length r3"
    by (simp_all add: skipWs_def length_dropWhile_le)
  with 7 show ?case by simp
qed

text \<open>
  The three equations are unconditional and call one another; they are unfolded where a
  proof asks for it.
\<close>

declare parseValue.simps [simp del] parseElems.simps [simp del] parseMembers.simps [simp del]

definition json_parse :: "utf16 \<Rightarrow> json option" where
  "json_parse s =
     (case parseValue s of
        None \<Rightarrow> None
      | Some (v, r) \<Rightarrow> if skipWs r = [] then Some v else None)"

subsection \<open>Writing a document\<close>

text \<open>
  A text is written between quotes. The quote, the backslash and five control characters
  have two-character escapes; any other code unit below 0x20, and a surrogate that is not
  half of a pair, is written as \<open>\u\<close> and four lowercase hexadecimal digits; everything
  else, a surrogate pair included, is written as it is.
\<close>

definition hexDigit :: "16 word \<Rightarrow> 16 word" where
  "hexDigit n = (if n < 10 then 0x30 + n else 0x61 + (n - 10))"

definition unicodeEscape :: "16 word \<Rightarrow> utf16" where
  "unicodeEscape c =
     [BSL, U (CHR ''u''), hexDigit (c div 4096), hexDigit (c div 256 mod 16),
      hexDigit (c div 16 mod 16), hexDigit (c mod 16)]"

definition isHighSurrogate :: "16 word \<Rightarrow> bool" where
  "isHighSurrogate c = (0xD800 \<le> c \<and> c \<le> 0xDBFF)"

definition isLowSurrogate :: "16 word \<Rightarrow> bool" where
  "isLowSurrogate c = (0xDC00 \<le> c \<and> c \<le> 0xDFFF)"

definition escapeUnit :: "16 word \<Rightarrow> utf16" where
  "escapeUnit c =
     (if c = DQ then [BSL, DQ]
      else if c = BSL then [BSL, BSL]
      else if c = 0x08 then [BSL, U (CHR ''b'')]
      else if c = 0x0C then [BSL, U (CHR ''f'')]
      else if c = 0x0A then [BSL, U (CHR ''n'')]
      else if c = 0x0D then [BSL, U (CHR ''r'')]
      else if c = 0x09 then [BSL, U (CHR ''t'')]
      else if c < 0x20 \<or> isHighSurrogate c \<or> isLowSurrogate c then unicodeEscape c
      else [c])"

fun quoteBody :: "utf16 \<Rightarrow> utf16" where
  "quoteBody (a # b # rest) =
     (if isHighSurrogate a \<and> isLowSurrogate b then a # b # quoteBody rest
      else escapeUnit a @ quoteBody (b # rest))"
| "quoteBody [a] = escapeUnit a"
| "quoteBody [] = []"

definition quoteText :: "utf16 \<Rightarrow> utf16" where
  "quoteText s = DQ # quoteBody s @ [DQ]"

fun joinWith :: "utf16 \<Rightarrow> utf16 list \<Rightarrow> utf16" where
  "joinWith sep [] = []"
| "joinWith sep [x] = x"
| "joinWith sep (x # y # ys) = x @ sep @ joinWith sep (y # ys)"

text \<open>
  The members of an object in the order \<open>JSON.stringify\<close> visits them: names that are
  array indices first, in ascending numeric order, then the other names in the order of
  their first appearance; each name carries its last value.
\<close>

definition decimalValue :: "utf16 \<Rightarrow> int" where
  "decimalValue s = foldl (\<lambda>n c. 10 * n + (uint c - 0x30)) 0 s"

definition isIndexKey :: "utf16 \<Rightarrow> bool" where
  "isIndexKey k =
     (k \<noteq> [] \<and> list_all isDigit k \<and> (k = lit ''0'' \<or> hd k \<noteq> U (CHR ''0''))
      \<and> decimalValue k < 4294967295)"

definition lookupMember :: "(utf16 \<times> json) list \<Rightarrow> utf16 \<Rightarrow> json option" where
  "lookupMember ms k = map_of (rev ms) k"

definition ownKeys :: "(utf16 \<times> json) list \<Rightarrow> utf16 list" where
  "ownKeys ms =
     (let ks = rev (remdups (rev (map fst ms)))
      in sort_key decimalValue (filter isIndexKey ks) @ filter (\<lambda>k. \<not> isIndexKey k) ks)"

text \<open>
  \<open>JSON.stringify\<close> of a parsed value. What it writes for a number is the engine's
  rendering of the floating-point value; that rendering is the parameter \<open>num\<close>, from the
  text the number was read from to the text written.
\<close>

fun json_stringify :: "(utf16 \<Rightarrow> utf16) \<Rightarrow> json \<Rightarrow> utf16" where
  "json_stringify num JNull = lit ''null''"
| "json_stringify num (JBool b) = (if b then lit ''true'' else lit ''false'')"
| "json_stringify num (JNum n) = num n"
| "json_stringify num (JStr t) = quoteText t"
| "json_stringify num (JArr vs) =
     lit ''['' @ joinWith (lit '','') (map (json_stringify num) vs) @ lit '']''"
| "json_stringify num (JObj ms) =
     lit ''{'' @ joinWith (lit '','')
       (map (\<lambda>k. quoteText k @ lit '':'' @
                 (case map_of (rev (map (\<lambda>(n, v). (n, json_stringify num v)) ms)) k of
                    None \<Rightarrow> [] | Some t \<Rightarrow> t))
            (ownKeys ms)) @ lit ''}''"

subsection \<open>Reading members of a value\<close>

text \<open>
  A value that may be \<open>undefined\<close> is a \<open>json option\<close>. \<open>getProp v k\<close> is \<open>v.k\<close> for a
  value \<open>v\<close> other than \<open>null\<close> and a name \<open>k\<close> that no built-in prototype defines (the
  names read by this program are \<open>delta\<close>, \<open>content\<close>, \<open>answer\<close>, \<open>choices\<close> and
  \<open>message\<close>): only an object can hold it. \<open>index0 v\<close> is \<open>v[0]\<close>.
\<close>

definition getProp :: "json \<Rightarrow> utf16 \<Rightarrow> json option" where
  "getProp v k = (case v of JObj ms \<Rightarrow> lookupMember ms k | _ \<Rightarrow> None)"

definition index0 :: "json \<Rightarrow> json option" where
  "index0 v =
     (case v of
        JArr vs \<Rightarrow> (case vs of [] \<Rightarrow> None | x # _ \<Rightarrow> Some x)
      | JObj ms \<Rightarrow> lookupMember ms (lit ''0'')
      | JStr t \<Rightarrow> (case t of [] \<Rightarrow> None | c # _ \<Rightarrow> Some (JStr [c]))
      | _ \<Rightarrow> None)"

definition isNullish :: "json option \<Rightarrow> bool" where
  "isNullish a = (a = None \<or> a = Some JNull)"

text \<open>\<open>a?.k\<close>, \<open>a?.[0]\<close>, \<open>a ?? b\<close> and a closing \<open>a ?? v\<close> with a definite value.\<close>

definition optProp :: "json option \<Rightarrow> utf16 \<Rightarrow> json option" where
  "optProp a k = (case a of None \<Rightarrow> None | Some v \<Rightarrow> if v = JNull then None else getProp v k)"

definition optIndex0 :: "json option \<Rightarrow> json option" where
  "optIndex0 a = (case a of None \<Rightarrow> None | Some v \<Rightarrow> if v = JNull then None else index0 v)"

definition orElse :: "json option \<Rightarrow> json option \<Rightarrow> json option" where
  "orElse a b = (if isNullish a then b else a)"

definition orValue :: "json option \<Rightarrow> json \<Rightarrow> json" where
  "orValue a d = (case a of None \<Rightarrow> d | Some v \<Rightarrow> if v = JNull then d else v)"

section \<open>Chat session data\<close>

datatype Role = User | Assistant | System

record ChatMessage =
  role :: Role
  content :: utf16

text \<open>
  The options of \<open>useChat\<close>; an option that is not given is \<open>None\<close>. \<open>maxHistory\<close> and
  \<open>maxTokens\<close> are taken to be integers. The \<open>temperature\<close> option is a floating-point
  number that is only copied into the request body; it is left out of the embedding.
\<close>

record UseChatOptions =
  model :: "utf16 option"
  maxHistory :: "int option"
  systemPrompt :: "utf16 option"
  maxTokens :: "int option"
  stream :: "bool option"

subsection \<open>History window\<close>

text \<open>
  \<open>xs.slice(start)\<close> with an integer \<open>start\<close>: a negative start counts from the end and is
  clamped at the front, a non-negative one is clamped at the length.
\<close>

definition slice_from :: "int \<Rightarrow> 'a list \<Rightarrow> 'a list" where
  "slice_from start xs =
     (let len = int (length xs);
          k = (if start < 0 then max (len + start) 0 else min start len)
      in drop (nat k) xs)"

definition buildHistory :: "UseChatOptions \<Rightarrow> ChatMessage list \<Rightarrow> ChatMessage list" where
  "buildHistory opts msgs =
     (let hist = filter (\<lambda>m. role m \<noteq> System) msgs;
          maxHistory = (case maxHistory opts of None \<Rightarrow> 10 | Some n \<Rightarrow> n)
      in slice_from (- maxHistory) hist)"

subsection \<open>Markdown completion\<close>

text \<open>
  \<open>(out.match(/```/g) || []).length\<close>: the number of matches of three backticks found from
  left to right, each search resuming after the previous match. The argument of
  \<open>postProcessMarkdown\<close> here is a text, so its guard \<open>s ?? ""\<close> against a missing argument
  has no counterpart; the caller that may pass something else is \<open>send_answered\<close> below.
\<close>

fun fenceCount :: "utf16 \<Rightarrow> nat" where
  "fenceCount (a # b # c # rest) =
     (if a = BT \<and> b = BT \<and> c = BT then Suc (fenceCount rest)
      else fenceCount (b # c # rest))"
| "fenceCount _ = 0"

definition postProcessMarkdown :: "utf16 \<Rightarrow> utf16" where
  "postProcessMarkdown s =
     (let out = (if fenceCount s mod 2 \<noteq> 0 then s @ [LF, BT, BT, BT] else s)
      in if \<not> endsWith out [LF] then out @ [LF] else out)"

subsection \<open>Payload of one line of an event\<close>

text \<open>
  \<open>parseSSELine\<close> returns \<open>null\<close> (here \<open>JNull\<close>) for a line that is not a data line, the
  empty text for an empty payload and for the two end markers, a member of the parsed
  payload, or the payload itself. Reading \<open>obj.delta\<close> of a payload that parsed to \<open>null\<close>
  throws inside the \<open>try\<close> block, so the \<open>catch\<close> branch returns the payload as it does
  for a payload that does not parse.
\<close>

definition parseSSELine :: "utf16 \<Rightarrow> json" where
  "parseSSELine line =
     (let trimmed = trim line
      in if \<not> startsWith trimmed (lit ''data:'') then JNull
         else
           (let payload = trim (drop 5 trimmed)
            in if payload = [] \<or> payload = lit ''[DONE]'' \<or> payload = lit ''[done]'' then JStr []
               else
                 (case json_parse payload of
                    None \<Rightarrow> JStr payload
                  | Some obj \<Rightarrow>
                      if obj = JNull then JStr payload
                      else orValue
                             (orElse (orElse (orElse (optProp (getProp obj (lit ''delta''))
                                                              (lit ''content''))
                                                     (getProp obj (lit ''delta'')))
                                             (getProp obj (lit ''content'')))
                                     (getProp obj (lit ''answer'')))
                             (JStr []))))"

text \<open>
  What the read loop does with one line of an event: nothing for \<open>null\<close> and for the
  empty text, otherwise \<open>appendToMessage(idx, add)\<close> with the value returned.
\<close>

definition lineAppend :: "utf16 \<Rightarrow> json option" where
  "lineAppend line =
     (let add = parseSSELine line
      in if add = JNull then None
         else if add = JStr [] then None
         else Some add)"

section \<open>The chat session\<close>

text \<open>
  The reactive state of one \<open>useChat\<close> instance. Every \<open>AbortController\<close> the session has
  created is an entry of \<open>controllers\<close>, holding whether it has been aborted;
  \<open>abortCtrl\<close> is the position of the current one.
\<close>

record Session =
  messages :: "ChatMessage list"
  pending :: bool
  error :: "utf16 option"
  abortCtrl :: "nat option"
  controllers :: "bool list"

definition systemMessages :: "UseChatOptions \<Rightarrow> ChatMessage list" where
  "systemMessages opts =
     (case systemPrompt opts of
        None \<Rightarrow> []
      | Some p \<Rightarrow> if p = [] then [] else [\<lparr>role = System, content = p\<rparr>])"

definition useChat :: "UseChatOptions \<Rightarrow> Session" where
  "useChat opts =
     \<lparr>messages = systemMessages opts, pending = False, error = None,
      abortCtrl = None, controllers = []\<rparr>"

text \<open>\<open>abortCtrl?.abort()\<close> and \<open>abortCtrl = new AbortController()\<close>.\<close>

definition abortCurrent :: "Session \<Rightarrow> Session" where
  "abortCurrent st =
     (case abortCtrl st of
        None \<Rightarrow> st
      | Some i \<Rightarrow> st\<lparr>controllers := (controllers st)[i := True]\<rparr>)"

definition newController :: "Session \<Rightarrow> Session" where
  "newController st =
     st\<lparr>abortCtrl := Some (length (controllers st)), controllers := controllers st @ [False]\<rparr>"

text \<open>
  The body of the request to \<open>/api/chat\<close>, as the client builds it and the server reads
  it (without the temperature), and the signal passed along with it.
\<close>

record ChatRequest =
  req_prompt :: utf16
  req_history :: "ChatMessage list"
  req_model :: "utf16 option"
  req_maxTokens :: int
  req_stream :: bool

record Issued =
  request :: ChatRequest
  signal :: nat

text \<open>
  \<open>send\<close> is asynchronous: it runs up to the request, waits, and goes on when the request
  has settled. The first stretch, \<open>send\<close> below, runs from the call to the request: it
  returns the session and the request issued (with the position of the controller whose
  signal it carries), or the unchanged session and no request when the guard returns.
  The stretch after the wait is \<open>send_answered\<close> without streaming and \<open>send_responded\<close>
  with streaming. The read loop that follows an \<open>ok\<close> streaming response applies
  \<open>splitFrames\<close> to its buffer and \<open>lineAppend\<close> to the lines of every event.
\<close>

definition send :: "UseChatOptions \<Rightarrow> Session \<Rightarrow> utf16 \<Rightarrow> Session \<times> Issued option" where
  "send opts st prompt =
     (if trim prompt = [] \<or> pending st then (st, None)
      else
        (let st1 = st\<lparr>error := None, pending := True\<rparr>;
             st2 = newController (abortCurrent st1);
             tail = buildHistory opts (messages st2);
             st3 = st2\<lparr>messages := messages st2 @ [\<lparr>role = User, content = prompt\<rparr>]\<rparr>;
             wantStream = (stream opts = Some True)
         in (st3,
             Some \<lparr>request =
                     \<lparr>req_prompt = prompt, req_history = tail, req_model = model opts,
                      req_maxTokens = (case maxTokens opts of None \<Rightarrow> 1536 | Some n \<Rightarrow> n),
                      req_stream = wantStream\<rparr>,
                   signal = length (controllers st1)\<rparr>)))"

text \<open>
  What is thrown and caught: the \<open>name\<close> and the \<open>message\<close> of the exception. The \<open>catch\<close>
  block returns silently on an \<open>AbortError\<close> and records the message otherwise; the
  \<open>finally\<close> block clears \<open>pending\<close> in both cases.
\<close>

datatype Exn = Exn (exn_name: utf16) (exn_message: "utf16 option")

datatype 'a Settled = Resolved 'a | Rejected Exn

definition catchFinally :: "Session \<Rightarrow> Exn \<Rightarrow> Session" where
  "catchFinally st e =
     (if exn_name e = lit ''AbortError'' then st
      else st\<lparr>error := Some (case exn_message e of
                               None \<Rightarrow> lit ''Unknown error''
                             | Some m \<Rightarrow> m)\<rparr>)
     \<lparr>pending := False\<rparr>"

text \<open>
  The reply \<open>$fetch\<close> resolves with is declared as \<open>{ answer?: string; error?: string }\<close>;
  the reply itself may be missing (\<open>resp?.\<close>). Its \<open>answer\<close> is whatever the handler found
  as the content of the backend's message, so it is kept as a value: a text is completed
  and pushed, a missing or \<open>null\<close> answer counts as the empty text, and for any other
  value the call \<open>out.match\<close> in \<open>postProcessMarkdown\<close> throws a \<open>TypeError\<close>, whose message
  is worded by the engine: the parameter \<open>notCallable\<close>. The second stretch of \<open>send\<close>
  without streaming runs once \<open>$fetch\<close> has settled.
\<close>

record ChatReply =
  answer :: "json option"
  reply_error :: "utf16 option"

definition send_answered ::
  "(json \<Rightarrow> utf16) \<Rightarrow> Session \<Rightarrow> ChatReply option Settled \<Rightarrow> Session" where
  "send_answered notCallable st outcome =
     (case outcome of
        Rejected e \<Rightarrow> catchFinally st e
      | Resolved resp \<Rightarrow>
          (let err = (case resp of None \<Rightarrow> None | Some r \<Rightarrow> reply_error r);
               ans = orValue (case resp of None \<Rightarrow> None | Some r \<Rightarrow> answer r) (JStr [])
           in if err \<noteq> None \<and> err \<noteq> Some [] then catchFinally st (Exn (lit ''Error'') err)
              else
                (case ans of
                   JStr t \<Rightarrow>
                     st\<lparr>messages := messages st @
                          [\<lparr>role = Assistant, content = postProcessMarkdown t\<rparr>],
                        pending := False\<rparr>
                 | _ \<Rightarrow> catchFinally st (Exn (lit ''TypeError'') (Some (notCallable ans))))))"

text \<open>
  With streaming, the second stretch runs once \<open>fetch\<close> has settled: a response that is
  not \<open>ok\<close> is turned into an error carrying the status line and the first 200 code units
  of its body; an \<open>ok\<close> response reserves the assistant message the read loop will fill
  and yields its index. \<open>bodyText\<close> is what \<open>resp.text()\<close> yields, the empty text when the
  body cannot be read.
\<close>

record Response =
  ok :: bool
  status :: nat
  statusText :: utf16
  bodyText :: utf16

definition send_responded :: "Session \<Rightarrow> Response Settled \<Rightarrow> Session \<times> nat option" where
  "send_responded st outcome =
     (case outcome of
        Rejected e \<Rightarrow> (catchFinally st e, None)
      | Resolved resp \<Rightarrow>
          if \<not> ok resp then
            (let serverMsg = bodyText resp
             in (catchFinally st
                   (Exn (lit ''Error'')
                      (Some (lit ''API '' @ digitsOf (status resp) @ lit '' '' @ statusText resp @
                             (if serverMsg \<noteq> [] then lit '' - '' @ take 200 serverMsg
                              else [])))),
                 None))
          else
            (let st1 = st\<lparr>messages := messages st @ [\<lparr>role = Assistant, content = []\<rparr>]\<rparr>
             in (st1, Some (length (messages st1) - 1))))"

section \<open>The server handler\<close>

record RuntimeConfig =
  openaiApiKey :: "utf16 option"
  openaiModel :: utf16
  openaiBaseUrl :: utf16

text \<open>
  The response of the completion backend: whether its status is a success, its status,
  its declared content type, and its body as the chunks a reader yields (\<open>None\<close> for a
  response without body). A chunk stands for its bytes and for their decoded text alike.
\<close>

record Upstream =
  up_ok :: bool
  up_status :: nat
  up_contentType :: "string option"
  up_body :: "utf16 list option"

definition upstreamText :: "Upstream \<Rightarrow> utf16" where
  "upstreamText up = (case up_body up of None \<Rightarrow> [] | Some chunks \<Rightarrow> concat chunks)"

text \<open>
  The handler either returns an object, sent with the status code set on the response
  (200 unless changed), or writes a stream and ends it, or fails with the exception that
  \<open>upstream.json()\<close> throws on a body that is not a document.
\<close>

datatype HandlerResult =
    Reply nat json
  | Streamed "utf16 list"
  | Thrown

text \<open>\<open>data?.choices?.[0]?.message?.content ?? ""\<close>\<close>

definition answerOf :: "json \<Rightarrow> json" where
  "answerOf data =
     orValue (optProp (optProp (optIndex0 (optProp (Some data) (lit ''choices'')))
                               (lit ''message''))
                      (lit ''content''))
             (JStr [])"

text \<open>
  The lines of a chunk of a plain text stream, each non-empty one written as
  \<open>data: ${ln}\n\n\<close>.
\<close>

definition chunkFrames :: "utf16 \<Rightarrow> utf16 list" where
  "chunkFrames chunk =
     map (\<lambda>ln. lit ''data: '' @ ln @ [LF, LF])
         (filter (\<lambda>ln. length ln > 0) (split lineSep chunk))"

text \<open>
  The handler. \<open>num\<close> is the engine's rendering of numbers, which \<open>JSON.stringify\<close> uses
  when the answer bridged into a frame holds one.
\<close>

definition handler ::
  "(utf16 \<Rightarrow> utf16) \<Rightarrow> RuntimeConfig \<Rightarrow> ChatRequest \<Rightarrow> Upstream \<Rightarrow> HandlerResult" where
  "handler num config req upstream =
     (if openaiApiKey config = None \<or> openaiApiKey config = Some [] then
        Reply 500 (JObj [(lit ''error'', JStr (lit ''Server missing OPENAI_API_KEY''))])
      else if \<not> up_ok upstream then
        Reply 500 (JObj [(lit ''error'', JStr (lit ''OpenAI error: '' @ upstreamText upstream))])
      else if \<not> req_stream req then
        (case json_parse (upstreamText upstream) of
           None \<Rightarrow> Thrown
         | Some data \<Rightarrow> Reply 200 (JObj [(lit ''answer'', answerOf data)]))
      else
        (let ping = [lit '': ping'' @ [LF, LF]];
             upstreamCT = toLowerCase (case up_contentType upstream of None \<Rightarrow> [] | Some t \<Rightarrow> t)
         in if includesText upstreamCT ''text/event-stream'' then
              (case up_body upstream of
                 None \<Rightarrow> Streamed ping
               | Some chunks \<Rightarrow> Streamed (ping @ chunks))
            else
              (case up_body upstream of
                 None \<Rightarrow> Streamed ping
               | Some chunks \<Rightarrow>
                   if includesText upstreamCT ''application/json'' then
                     (let text = concat chunks;
                          answer = (case json_parse text of
                                      None \<Rightarrow> JStr text
                                    | Some data \<Rightarrow> answerOf data)
                      in Streamed (ping @
                                   [lit ''data: '' @
                                      json_stringify num (JObj [(lit ''content'', answer)]) @
                                      [LF, LF],
                                    lit ''data: [DONE]'' @ [LF, LF]]))
                   else
                     Streamed (ping @ concat (map chunkFrames chunks) @
                               [lit ''data: [DONE]'' @ [LF, LF]]))))"

section \<open>Between handler and client\<close>

text \<open>
  An object the handler returns reaches the client as a response with the handler's
  status code and the object written as a document. \<open>fetch\<close> hands that response to the
  streaming client as it is; the reason phrase of the status line comes from the
  transport.
\<close>

definition isSuccess :: "nat \<Rightarrow> bool" where
  "isSuccess code = (200 \<le> code \<and> code \<le> 299)"

definition replyResponse ::
  "(utf16 \<Rightarrow> utf16) \<Rightarrow> utf16 \<Rightarrow> HandlerResult \<Rightarrow> Response option" where
  "replyResponse num reason res =
     (case res of
        Reply code obj \<Rightarrow>
          Some \<lparr>ok = isSuccess code, status = code, statusText = reason,
                bodyText = json_stringify num obj\<rparr>
      | _ \<Rightarrow> None)"

text \<open>
  \<open>$fetch\<close> is a library outside this program. It rejects a response whose status is
  an error status, from 400 to 599, with an error it builds itself: the parameter
  \<open>rejection\<close>. It resolves any other response with the parsed body. A body that is an
  object with a textual (or missing, or \<open>null\<close>) \<open>error\<close> is a reply as \<open>send\<close> declares it;
  what \<open>send\<close> would do with any other body is not represented: \<open>Untyped\<close>.
\<close>

datatype Fetched = Settles "ChatReply option Settled" | Untyped

definition textMember :: "(utf16 \<times> json) list \<Rightarrow> utf16 \<Rightarrow> utf16 option option" where
  "textMember ms k =
     (case lookupMember ms k of
        None \<Rightarrow> Some None
      | Some v \<Rightarrow> (case v of JNull \<Rightarrow> Some None | JStr t \<Rightarrow> Some (Some t) | _ \<Rightarrow> None))"

definition dollarFetch :: "(Response \<Rightarrow> Exn) \<Rightarrow> Response \<Rightarrow> Fetched" where
  "dollarFetch rejection resp =
     (if 400 \<le> status resp \<and> status resp < 600 then Settles (Rejected (rejection resp))
      else
        (case json_parse (bodyText resp) of
           None \<Rightarrow> Untyped
         | Some body \<Rightarrow>
             (case body of
                JObj ms \<Rightarrow>
                  (case textMember ms (lit ''error'') of
                     None \<Rightarrow> Untyped
                   | Some e \<Rightarrow>
                       Settles (Resolved (Some \<lparr>answer = lookupMember ms (lit ''answer''),
                                                reply_error = e\<rparr>)))
              | _ \<Rightarrow> Untyped)))"

section \<open>Properties of the markdown completion\<close>

text \<open>A line feed separates fence matches: no match of three backticks contains it.\<close>

lemma fenceCount_LF_head: "fenceCount (LF # t) = fenceCount t"
  by (cases t rule: fenceCount.cases) simp_all

lemma fenceCount_LF_second: "fenceCount (a # LF # t) = fenceCount t"
  by (cases t) (simp_all add: fenceCount_LF_head)

lemma fenceCount_LF_third: "fenceCount (a # b # LF # t) = fenceCount t"
  by (simp add: fenceCount_LF_second)

lemma fenceCount_append_LF: "fenceCount (s @ LF # t) = fenceCount s + fenceCount t"
  by (induction s rule: fenceCount.induct)
     (simp_all add: fenceCount_LF_head fenceCount_LF_second fenceCount_LF_third)

lemma fenceCount_close: "fenceCount (s @ [LF, BT, BT, BT]) = Suc (fenceCount s)"
  by (simp add: fenceCount_append_LF)

lemma fenceCount_newline: "fenceCount (s @ [LF]) = fenceCount s"
  by (simp add: fenceCount_append_LF)

lemma endsWith_LF_iff: "endsWith s [LF] \<longleftrightarrow> (s \<noteq> [] \<and> last s = LF)"
proof (cases s rule: rev_cases)
  case Nil
  then show ?thesis by (simp add: endsWith_def)
next
  case (snoc ys y)
  then show ?thesis by (auto simp add: endsWith_def)
qed

lemma postProcessMarkdown_fixed:
  "fenceCount x mod 2 = 0 \<Longrightarrow> endsWith x [LF] \<Longrightarrow> postProcessMarkdown x = x"
  by (simp add: postProcessMarkdown_def)

lemma postProcessMarkdown_even: "fenceCount (postProcessMarkdown x) mod 2 = 0"
  by (auto simp add: postProcessMarkdown_def Let_def fenceCount_close fenceCount_newline endsWith_LF_iff fenceCount_append_LF mod_Suc)

lemma postProcessMarkdown_ends: "endsWith (postProcessMarkdown x) [LF]"
  by (auto simp add: postProcessMarkdown_def Let_def endsWith_LF_iff)

text \<open>
  C4: \<open>postProcessMarkdown\<close> is idempotent: applying it to its own result changes nothing,
  for every text; and a text with an even number of fences that ends with a line feed is
  returned unchanged.
\<close>

theorem postProcessMarkdown_idempotent:
  "(\<forall>x. postProcessMarkdown (postProcessMarkdown x) = postProcessMarkdown x) \<and>
   (\<forall>x. fenceCount x mod 2 = 0 \<and> endsWith x [LF] \<longrightarrow> postProcessMarkdown x = x)"
proof (intro conjI allI impI)
  fix x
  show "postProcessMarkdown (postProcessMarkdown x) = postProcessMarkdown x"
    by (rule postProcessMarkdown_fixed) (rule postProcessMarkdown_even, rule postProcessMarkdown_ends)
next
  fix x
  assume "fenceCount x mod 2 = 0 \<and> endsWith x [LF]"
  then show "postProcessMarkdown x = x"
    by (simp add: postProcessMarkdown_fixed)
qed

theorem postProcessMarkdown_idempotent_witness:
  "fenceCount ((lit ''a ``` b ``` c'') @ [LF]) mod 2 = 0 \<and> endsWith ((lit ''a ``` b ``` c'') @ [LF]) [LF]
   \<and> postProcessMarkdown ((lit ''a ``` b ``` c'') @ [LF]) = (lit ''a ``` b ``` c'') @ [LF]
   \<and> postProcessMarkdown (postProcessMarkdown (lit ''a ``` b'')) = postProcessMarkdown (lit ''a ``` b'')"
proof -
  have h: "fenceCount ((lit ''a ``` b ``` c'') @ [LF]) mod 2 = 0 \<and> endsWith ((lit ''a ``` b ``` c'') @ [LF]) [LF]"
    by code_simp
  have "postProcessMarkdown ((lit ''a ``` b ``` c'') @ [LF]) = (lit ''a ``` b ``` c'') @ [LF]"
    using postProcessMarkdown_idempotent h by (simp del: fenceCount.simps append.simps)
  moreover have "postProcessMarkdown (postProcessMarkdown (lit ''a ``` b'')) = postProcessMarkdown (lit ''a ``` b'')"
    using postProcessMarkdown_idempotent by (simp del: fenceCount.simps)
  ultimately show ?thesis using h by blast
qed

section \<open>Properties of the history window\<close>

text \<open>
  For a positive maximum, and for the default of 10, the window is the last messages of
  the list without its system messages; a system message is never part of a window.
\<close>

lemma slice_from_last:
  "0 < n \<Longrightarrow> slice_from (- n) xs = drop (length xs - nat n) xs"
  by (auto simp add: slice_from_def Let_def max_def nat_diff_distrib' intro!: arg_cong2[where f=drop])

lemma buildHistory_positive:
  assumes "0 < n" and "maxHistory opts = Some n"
  shows "buildHistory opts msgs =
           drop (length (filter (\<lambda>m. role m \<noteq> System) msgs) - nat n) (filter (\<lambda>m. role m \<noteq> System) msgs)"
  using assms by (simp add: buildHistory_def slice_from_last Let_def)

lemma buildHistory_default:
  assumes "maxHistory opts = None"
  shows "buildHistory opts msgs =
           drop (length (filter (\<lambda>m. role m \<noteq> System) msgs) - 10) (filter (\<lambda>m. role m \<noteq> System) msgs)"
  using assms slice_from_last[of 10] by (simp add: buildHistory_def Let_def)

lemma buildHistory_no_system: "m \<in> set (buildHistory opts msgs) \<Longrightarrow> role m \<noteq> System"
  by (auto simp add: buildHistory_def slice_from_def Let_def dest: in_set_dropD)

text \<open>
  C7: the history window is the last \<open>min N k\<close> of the \<open>k\<close> messages that are not system
  messages. With the maximum \<open>N = 0\<close> the window should be empty, but \<open>slice(-0)\<close> is
  \<open>slice(0)\<close>: the window computed holds every message of the list.
\<close>

theorem buildHistory_zero_keeps_all:
  "buildHistory \<lparr>model = None, maxHistory = Some 0, systemPrompt = None, maxTokens = None, stream = None\<rparr>
     [\<lparr>role = User, content = (lit ''hi'')\<rparr>, \<lparr>role = Assistant, content = (lit ''hello'')\<rparr>]
   = [\<lparr>role = User, content = (lit ''hi'')\<rparr>, \<lparr>role = Assistant, content = (lit ''hello'')\<rparr>]"
  by (simp add: buildHistory_def slice_from_def)


section \<open>Properties of the frame splitter\<close>

text \<open>
  The event separator matches exactly four texts. A match never contains another match
  that ends before it does; this is what makes the splitter indifferent to where a chunk
  ends.
\<close>

lemma matchAt_eventSep_short:
  "matchAt eventSep [] = None"
  "matchAt eventSep [x] = None"
  "matchAt eventSep [x, y] = (if x = LF \<and> y = LF then Some [] else None)"
  "matchAt eventSep [x, y, z] =
     (if x = LF \<and> y = LF then Some [z]
      else if (x = CR \<and> y = LF \<and> z = LF) \<or> (x = LF \<and> y = CR \<and> z = LF) then Some []
      else None)"
  by (simp_all add: eventSep_def)

lemma matchAt_eventSep_long:
  "matchAt eventSep (x # y # z # w # r) =
     (if x = LF \<and> y = LF then Some (z # w # r)
      else if (x = CR \<and> y = LF \<and> z = LF) \<or> (x = LF \<and> y = CR \<and> z = LF) then Some (w # r)
      else if x = CR \<and> y = LF \<and> z = CR \<and> w = LF then Some r
      else None)"
  by (simp add: eventSep_def)

lemma matchAt_eventSep_cases:
  "matchAt eventSep s = Some r \<longleftrightarrow>
     s = LF # LF # r \<or> s = CR # LF # LF # r \<or> s = LF # CR # LF # r \<or> s = CR # LF # CR # LF # r"
  by (auto simp add: eventSep_def split: list.splits if_splits option.splits)

lemma matchAt_eventSep_shorter:
  "matchAt eventSep (c # cs) = Some r \<Longrightarrow> length r \<le> length cs"
  by (auto simp add: matchAt_eventSep_cases)

lemma matchAt_eventSep_append:
  "matchAt eventSep s = Some r \<Longrightarrow> matchAt eventSep (s @ b) = Some (r @ b)"
  by (auto simp add: matchAt_eventSep_cases)

lemma matchAt_eventSep_spanning:
  assumes "matchAt eventSep a = None" and "matchAt eventSep (a @ b) = Some r"
  shows "matchAt eventSep (drop i a) = None"
proof -
  consider "a = []" | x where "a = [x]" | x y where "a = [x, y]" | x y z where "a = [x, y, z]"
    | x y z w t where "a = x # y # z # w # t"
    by (metis list.exhaust)
  then show ?thesis
  proof cases
    case 1
    then show ?thesis by (simp add: matchAt_eventSep_short)
  next
    case 2
    then show ?thesis by (simp add: matchAt_eventSep_short drop_Cons')
  next
    case 3
    then show ?thesis using assms(1) by (simp add: matchAt_eventSep_short drop_Cons')
  next
    case 4
    have "\<not> (y = LF \<and> z = LF)"
    proof
      assume yz: "y = LF \<and> z = LF"
      with assms(1) 4 have x: "x \<noteq> LF" "x \<noteq> CR"
        by (auto simp add: matchAt_eventSep_short split: if_splits)
      from assms(2) 4 yz x show False
        by (cases b) (simp_all add: matchAt_eventSep_short matchAt_eventSep_long)
    qed
    with 4 assms(1) show ?thesis
      by (auto simp add: matchAt_eventSep_short drop_Cons')
  next
    case 5
    with assms show ?thesis
      by (simp add: matchAt_eventSep_long split: if_splits)
  qed
qed


lemma splitGo_eventSep_Cons:
  "splitGo eventSep piece (c # cs) =
     (case matchAt eventSep (c # cs) of
        None \<Rightarrow> splitGo eventSep (piece @ [c]) cs
      | Some r \<Rightarrow> piece # splitGo eventSep [] r)"
  by (auto split: option.splits dest: matchAt_eventSep_shorter)

lemma splitGo_nonempty: "splitGo pat piece s \<noteq> []"
  by (induction pat piece s rule: splitGo.induct) (auto split: option.splits)

lemma splitGo_restart:
  "(\<And>i. i < length acc \<Longrightarrow> matchAt eventSep (drop i acc @ s) = None)
   \<Longrightarrow> splitGo eventSep (p @ acc) s = splitGo eventSep p (acc @ s)"
proof (induction acc arbitrary: p)
  case Nil
  then show ?case by simp
next
  case (Cons x acc)
  have head: "matchAt eventSep (x # acc @ s) = None"
    using Cons.prems[of 0] by simp
  have tail: "\<And>i. i < length acc \<Longrightarrow> matchAt eventSep (drop i acc @ s) = None"
    using Cons.prems[of "Suc i" for i] by simp
  have "splitGo eventSep p ((x # acc) @ s) = splitGo eventSep (p @ [x]) (acc @ s)"
    using head by (simp add: splitGo_eventSep_Cons del: splitGo.simps)
  also have "\<dots> = splitGo eventSep ((p @ [x]) @ acc) s"
    using Cons.IH[OF tail, of "p @ [x]"] by simp
  finally show ?case by simp
qed

lemma splitGo_no_match:
  "(\<And>i. i < length a \<Longrightarrow> matchAt eventSep (drop i a) = None)
   \<Longrightarrow> splitGo eventSep acc a = [acc @ a]"
proof (induction a arbitrary: acc)
  case Nil
  then show ?case by simp
next
  case (Cons x a)
  have head: "matchAt eventSep (x # a) = None"
    using Cons.prems[of 0] by simp
  have tail: "\<And>i. i < length a \<Longrightarrow> matchAt eventSep (drop i a) = None"
    using Cons.prems[of "Suc i" for i] by simp
  show ?case
    using head Cons.IH[OF tail, of "acc @ [x]"]
    by (simp add: splitGo_eventSep_Cons del: splitGo.simps)
qed

lemma splitGo_chunked:
  "(\<And>i. i < length acc \<Longrightarrow> matchAt eventSep (drop i acc @ a @ b) = None)
   \<Longrightarrow> splitGo eventSep acc (a @ b) =
       butlast (splitGo eventSep acc a) @ splitGo eventSep [] (last (splitGo eventSep acc a) @ b)"
proof (induction "length a" arbitrary: a acc rule: less_induct)
  case less
  show ?case
  proof (cases a)
    case Nil
    then show ?thesis
      using splitGo_restart[of acc b "[]"] less.prems by simp
  next
    case (Cons c cs)
    show ?thesis
    proof (cases "matchAt eventSep (c # cs)")
      case (Some r)
      then have whole: "matchAt eventSep (c # cs @ b) = Some (r @ b)"
        using matchAt_eventSep_append[of "c # cs" r b] by simp
      have shorter: "length r < length a"
        using matchAt_eventSep_shorter[OF Some] Cons by simp
      have ih: "splitGo eventSep [] (r @ b) =
                  butlast (splitGo eventSep [] r) @ splitGo eventSep [] (last (splitGo eventSep [] r) @ b)"
        by (rule less.hyps[OF shorter]) simp
      show ?thesis
        using Some whole ih Cons
        by (simp add: splitGo_eventSep_Cons splitGo_nonempty del: splitGo.simps)
    next
      case None
      show ?thesis
      proof (cases "matchAt eventSep (c # cs @ b)")
        case inner: None
        have pre: "\<And>i. i < length (acc @ [c]) \<Longrightarrow> matchAt eventSep (drop i (acc @ [c]) @ cs @ b) = None"
        proof -
          fix i assume "i < length (acc @ [c])"
          then consider "i < length acc" | "i = length acc" by fastforce
          then show "matchAt eventSep (drop i (acc @ [c]) @ cs @ b) = None"
          proof cases
            case 1
            then show ?thesis using less.prems[of i] Cons by simp
          next
            case 2
            then show ?thesis using inner by simp
          qed
        qed
        have "length cs < length a" using Cons by simp
        from less.hyps[OF this pre] show ?thesis
          using None inner Cons by (simp add: splitGo_eventSep_Cons del: splitGo.simps)
      next
        case (Some r)
        have nomatch: "\<And>i. i < length a \<Longrightarrow> matchAt eventSep (drop i a) = None"
          using matchAt_eventSep_spanning[of a b r] None Some Cons by simp
        have "splitGo eventSep acc a = [acc @ a]"
          by (rule splitGo_no_match) (rule nomatch)
        moreover have "splitGo eventSep acc (a @ b) = splitGo eventSep [] (acc @ a @ b)"
          using splitGo_restart[of acc "a @ b" "[]"] less.prems by simp
        ultimately show ?thesis by simp
      qed
    qed
  qed
qed

lemma splitFrames_butlast_last:
  "splitFrames s = (butlast (split eventSep s), last (split eventSep s))"
proof -
  have "split eventSep s \<noteq> []" by (simp add: split_def splitGo_nonempty)
  then obtain xs x where "split eventSep s = xs @ [x]"
    by (metis rev_exhaust)
  then show ?thesis by (simp add: splitFrames_def)
qed

text \<open>
  C6: splitting is invariant under chunk boundaries: for every buffer cut into two pieces
  \<open>a\<close> and \<open>b\<close>, splitting \<open>a\<close>, then splitting what it left over followed by \<open>b\<close>,
  yields the events of splitting \<open>a @ b\<close> at once, in the same order, and leaves the same
  remainder.
\<close>

theorem splitFrames_chunk_invariant:
  "splitFrames (a @ b) =
     (let (events1, rest1) = splitFrames a;
          (events2, rest2) = splitFrames (rest1 @ b)
      in (events1 @ events2, rest2))"
proof -
  have "split eventSep (a @ b) =
          butlast (split eventSep a) @ split eventSep (last (split eventSep a) @ b)"
    unfolding split_def by (rule splitGo_chunked) simp
  moreover have "split eventSep (last (split eventSep a) @ b) \<noteq> []"
    by (simp add: split_def splitGo_nonempty)
  ultimately show ?thesis
    by (simp add: splitFrames_butlast_last butlast_append)
qed


section \<open>Properties of the payload extraction\<close>

text \<open>
  Neither the empty text nor an end marker is a document, so a payload that parses is
  past the early return of \<open>parseSSELine\<close>. For a payload that parses to an object the
  result is the chain of \<open>??\<close> over the four members read. A payload that parses to
  \<open>null\<close> comes back as literal text; one that parses to a number, a string, a truth value
  or an array has none of the members and yields the empty text.
\<close>

lemma json_parse_markers:
  "json_parse [] = None" "json_parse (lit ''[DONE]'') = None" "json_parse (lit ''[done]'') = None"
  by code_simp+

lemma orElse_simps:
  "isNullish a \<Longrightarrow> orElse a b = b"
  "\<not> isNullish a \<Longrightarrow> orElse a b = a"
  by (simp_all add: orElse_def)

lemma orValue_simps:
  "isNullish a \<Longrightarrow> orValue a d = d"
  "\<not> isNullish a \<Longrightarrow> Some (orValue a d) = a"
  by (auto simp add: orValue_def isNullish_def split: option.splits)

lemma parseSSELine_object:
  assumes "startsWith (trim line) (lit ''data:'')"
      and "json_parse (trim (drop 5 (trim line))) = Some (JObj ms)"
  shows "parseSSELine line =
           orValue (orElse (orElse (orElse (optProp (lookupMember ms (lit ''delta'')) (lit ''content''))
                                           (lookupMember ms (lit ''delta'')))
                                   (lookupMember ms (lit ''content'')))
                           (lookupMember ms (lit ''answer'')))
                   (JStr [])"
proof -
  have "trim (drop 5 (trim line)) \<noteq> []" "trim (drop 5 (trim line)) \<noteq> (lit ''[DONE]'')"
       "trim (drop 5 (trim line)) \<noteq> (lit ''[done]'')"
    using assms(2) json_parse_markers by auto
  then show ?thesis
    using assms by (simp add: parseSSELine_def Let_def getProp_def)
qed

lemma parseSSELine_null:
  assumes "startsWith (trim line) (lit ''data:'')"
      and "json_parse (trim (drop 5 (trim line))) = Some JNull"
  shows "parseSSELine line = JStr (trim (drop 5 (trim line)))"
proof -
  have "trim (drop 5 (trim line)) \<noteq> []" "trim (drop 5 (trim line)) \<noteq> (lit ''[DONE]'')"
       "trim (drop 5 (trim line)) \<noteq> (lit ''[done]'')"
    using assms(2) json_parse_markers by auto
  then show ?thesis
    using assms by (simp add: parseSSELine_def Let_def)
qed

lemma parseSSELine_scalar:
  assumes "startsWith (trim line) (lit ''data:'')"
      and "json_parse (trim (drop 5 (trim line))) = Some v"
      and "v = JBool b \<or> v = JNum n \<or> v = JStr t \<or> v = JArr vs"
  shows "parseSSELine line = JStr []"
proof -
  have "trim (drop 5 (trim line)) \<noteq> []" "trim (drop 5 (trim line)) \<noteq> (lit ''[DONE]'')"
       "trim (drop 5 (trim line)) \<noteq> (lit ''[done]'')"
    using assms(2) json_parse_markers by auto
  then show ?thesis
    using assms
    by (auto simp add: parseSSELine_def Let_def getProp_def optProp_def orElse_def orValue_def
          isNullish_def)
qed

text \<open>
  A payload that opens with a bracket and the letter d is not a document; unless it is
  one of the two end markers it comes back as literal text, whatever its casing.
\<close>

lemma json_parse_bracket_d:
  assumes "c = U (CHR ''d'') \<or> c = U (CHR ''D'')"
  shows "json_parse (U (CHR ''['') # c # rest) = None"
proof -
  have n: "parseNumber (c # rest) = None"
    using assms by (auto simp add: parseNumber_def parseInt_def isDigit_def)
  have v: "parseValue (c # rest) = None"
    using assms n by (subst parseValue.simps) (auto simp add: skipWs_def isJsonSpace_def)
  have e: "parseElems (c # rest) = None"
    using v by (subst parseElems.simps) simp
  have "parseValue (U (CHR ''['') # c # rest) = None"
    using assms e by (subst parseValue.simps) (auto simp add: skipWs_def isJsonSpace_def)
  then show ?thesis by (simp add: json_parse_def)
qed

lemma parseSSELine_other_spelling:
  assumes "startsWith (trim line) (lit ''data:'')"
      and "trim (drop 5 (trim line)) = U (CHR ''['') # c # rest"
      and "c = U (CHR ''d'') \<or> c = U (CHR ''D'')"
      and "U (CHR ''['') # c # rest \<noteq> (lit ''[DONE]'')" and "U (CHR ''['') # c # rest \<noteq> (lit ''[done]'')"
  shows "parseSSELine line = JStr (U (CHR ''['') # c # rest)"
  using assms json_parse_bracket_d[OF assms(3), of rest]
  by (simp add: parseSSELine_def Let_def)


lemma mixed_case_eval:
  "startsWith (trim (lit ''data: [Done]'')) (lit ''data:'')"
  "trim (drop 5 (trim (lit ''data: [Done]''))) = (lit ''[Done]'')"
  "toLowerCase ''[Done]'' = toLowerCase ''[DONE]''"
  "parseSSELine (lit ''data: [Done]'') = JStr (lit ''[Done]'')"
  by code_simp+

lemma marker_eval:
  "startsWith (trim (lit ''  data:   [done]  '')) (lit ''data:'')"
  "trim (drop 5 (trim (lit ''  data:   [done]  ''))) = (lit ''[done]'')"
  "startsWith (trim (lit ''data: [DONE]'')) (lit ''data:'')"
  "trim (drop 5 (trim (lit ''data: [DONE]''))) = (lit ''[DONE]'')"
  by code_simp+

text \<open>
  C2, as stated: a data line whose payload equals \<open>[DONE]\<close> in any casing yields the empty
  text. This fails for \<open>[Done]\<close>: the payload is compared with the two spellings \<open>[DONE]\<close>
  and \<open>[done]\<close> only, \<open>[Done]\<close> is not a document, and it comes back as literal text.
\<close>

theorem parseSSELine_mixed_case_counterexample:
  "startsWith (trim (lit ''data: [Done]'')) (lit ''data:'')
   \<and> trim (drop 5 (trim (lit ''data: [Done]''))) = lit ''[Done]''
   \<and> toLowerCase ''[Done]'' = toLowerCase ''[DONE]''
   \<and> parseSSELine (lit ''data: [Done]'') = JStr (lit ''[Done]'')
   \<and> parseSSELine (lit ''data: [Done]'') \<noteq> JStr []"
proof -
  have "JStr (lit ''[Done]'') \<noteq> JStr []"
    by simp
  then show ?thesis
    by (simp only: mixed_case_eval simp_thms)
qed

text \<open>
  C2, amended: for every line whose trimmed form begins with \<open>data:\<close>, if the text that
  remains after the prefix, trimmed, is exactly \<open>[DONE]\<close> or exactly \<open>[done]\<close>, the result
  is the empty text.
\<close>

theorem parseSSELine_markers:
  assumes "startsWith (trim line) (lit ''data:'')"
      and "trim (drop 5 (trim line)) = (lit ''[DONE]'') \<or> trim (drop 5 (trim line)) = (lit ''[done]'')"
  shows "parseSSELine line = JStr []"
  using assms by (auto simp add: parseSSELine_def Let_def)

theorem parseSSELine_markers_witness:
  "startsWith (trim (lit ''data: [DONE]'')) (lit ''data:'')
   \<and> trim (drop 5 (trim (lit ''data: [DONE]''))) = (lit ''[DONE]'')
   \<and> parseSSELine (lit ''data: [DONE]'') = JStr []
   \<and> startsWith (trim (lit ''  data:   [done]  '')) (lit ''data:'')
   \<and> trim (drop 5 (trim (lit ''  data:   [done]  ''))) = (lit ''[done]'')
   \<and> parseSSELine (lit ''  data:   [done]  '') = JStr []"
  using parseSSELine_markers[of "(lit ''data: [DONE]'')"] parseSSELine_markers[of "(lit ''  data:   [done]  '')"]
        marker_eval
  by blast

text \<open>
  A name written with an escape is the name the escape denotes: \<open>\u0163ontent\<close> is a
  name of seven code units whose first is 0x0163, not the name \<open>content\<close>. An object
  holding only that member has none of the members read, and beside a \<open>content\<close> member
  it leaves that member as it is.
\<close>

lemma parseSSELine_escaped_name:
  "parseSSELine (lit ''data: {\"'' @ [BSL] @ lit ''u0163ontent\":\"x\"}'') = JStr []"
  "parseSSELine (lit ''data: {\"content\":\"x\",\"'' @ [BSL] @ lit ''u0163ontent\":null}'')
     = JStr (lit ''x'')"
  "json_parse (lit ''{\"'' @ [BSL] @ lit ''u0163ontent\":\"x\"}'')
     = Some (JObj [(0x0163 # lit ''ontent'', JStr (lit ''x''))])"
  by code_simp+

text \<open>
  C5: for a data line whose payload parses to an object, the result is the first of
  \<open>delta.content\<close>, \<open>delta\<close>, \<open>content\<close>, \<open>answer\<close> that is present, a member being present
  when it exists with a value other than \<open>null\<close>; the nested member is read only from a
  \<open>delta\<close> that is present. For a payload that does not parse, the payload itself is the
  result; the two end markers, which do not parse either, are the payloads the function
  has set aside before it attempts to parse.
\<close>

theorem parseSSELine_priority:
  assumes "startsWith (trim line) (lit ''data:'')"
  shows
    "(\<forall>ms. json_parse (trim (drop 5 (trim line))) = Some (JObj ms) \<longrightarrow>
        (let deltaContent = optProp (lookupMember ms (lit ''delta'')) (lit ''content'');
             delta = lookupMember ms (lit ''delta'');
             content = lookupMember ms (lit ''content'');
             answer = lookupMember ms (lit ''answer'')
         in (\<not> isNullish deltaContent \<longrightarrow> Some (parseSSELine line) = deltaContent)
          \<and> (isNullish deltaContent \<and> \<not> isNullish delta \<longrightarrow> Some (parseSSELine line) = delta)
          \<and> (isNullish deltaContent \<and> isNullish delta \<and> \<not> isNullish content
               \<longrightarrow> Some (parseSSELine line) = content)
          \<and> (isNullish deltaContent \<and> isNullish delta \<and> isNullish content \<and> \<not> isNullish answer
               \<longrightarrow> Some (parseSSELine line) = answer)))
   \<and> (json_parse (trim (drop 5 (trim line))) = None
        \<and> trim (drop 5 (trim line)) \<notin> {(lit ''[DONE]''), (lit ''[done]'')}
      \<longrightarrow> parseSSELine line = JStr (trim (drop 5 (trim line))))"
proof (intro conjI allI impI)
  fix ms
  assume "json_parse (trim (drop 5 (trim line))) = Some (JObj ms)"
  from parseSSELine_object[OF assms this]
  show "let deltaContent = optProp (lookupMember ms (lit ''delta'')) (lit ''content'');
             delta = lookupMember ms (lit ''delta'');
             content = lookupMember ms (lit ''content'');
             answer = lookupMember ms (lit ''answer'')
         in (\<not> isNullish deltaContent \<longrightarrow> Some (parseSSELine line) = deltaContent)
          \<and> (isNullish deltaContent \<and> \<not> isNullish delta \<longrightarrow> Some (parseSSELine line) = delta)
          \<and> (isNullish deltaContent \<and> isNullish delta \<and> \<not> isNullish content
               \<longrightarrow> Some (parseSSELine line) = content)
          \<and> (isNullish deltaContent \<and> isNullish delta \<and> isNullish content \<and> \<not> isNullish answer
               \<longrightarrow> Some (parseSSELine line) = answer)"
    by (simp add: Let_def orElse_simps orValue_simps)
next
  assume "json_parse (trim (drop 5 (trim line))) = None
        \<and> trim (drop 5 (trim line)) \<notin> {(lit ''[DONE]''), (lit ''[done]'')}"
  then show "parseSSELine line = JStr (trim (drop 5 (trim line)))"
    using assms json_parse_markers(1) by (auto simp add: parseSSELine_def Let_def)
qed

lemma priority_eval_object:
  "startsWith (trim (lit ''data: {\"delta\":{\"content\":\"Hel\"},\"content\":\"x\"}'')) (lit ''data:'')"
  "json_parse (trim (drop 5 (trim (lit ''data: {\"delta\":{\"content\":\"Hel\"},\"content\":\"x\"}''))))
     = Some (JObj [((lit ''delta''), JObj [((lit ''content''), JStr (lit ''Hel''))]), ((lit ''content''), JStr (lit ''x''))])"
  by code_simp+

lemma priority_eval_literal:
  "startsWith (trim (lit ''data: lo'')) (lit ''data:'')"
  "trim (drop 5 (trim (lit ''data: lo''))) = (lit ''lo'')"
  "json_parse (lit ''lo'') = None"
  by code_simp+

theorem parseSSELine_priority_witness:
  "startsWith (trim (lit ''data: {\"delta\":{\"content\":\"Hel\"},\"content\":\"x\"}'')) (lit ''data:'')
   \<and> json_parse (trim (drop 5 (trim (lit ''data: {\"delta\":{\"content\":\"Hel\"},\"content\":\"x\"}''))))
       = Some (JObj [((lit ''delta''), JObj [((lit ''content''), JStr (lit ''Hel''))]), ((lit ''content''), JStr (lit ''x''))])
   \<and> parseSSELine (lit ''data: {\"delta\":{\"content\":\"Hel\"},\"content\":\"x\"}'') = JStr (lit ''Hel'')
   \<and> startsWith (trim (lit ''data: lo'')) (lit ''data:'')
   \<and> json_parse (trim (drop 5 (trim (lit ''data: lo'')))) = None
   \<and> parseSSELine (lit ''data: lo'') = JStr (lit ''lo'')"
proof -
  have dc: "\<not> isNullish (optProp (lookupMember [((lit ''delta''), JObj [((lit ''content''), JStr (lit ''Hel''))]), ((lit ''content''), JStr (lit ''x''))] (lit ''delta'')) (lit ''content''))"
     "optProp (lookupMember [((lit ''delta''), JObj [((lit ''content''), JStr (lit ''Hel''))]), ((lit ''content''), JStr (lit ''x''))] (lit ''delta'')) (lit ''content'') = Some (JStr (lit ''Hel''))"
    by (simp_all add: isNullish_def optProp_def lookupMember_def getProp_def )
  have "Some (parseSSELine (lit ''data: {\"delta\":{\"content\":\"Hel\"},\"content\":\"x\"}'')) = Some (JStr (lit ''Hel''))"
    using parseSSELine_priority[OF priority_eval_object(1)] priority_eval_object(2) dc by (simp add: Let_def del: append.simps)
  moreover have "lit ''lo'' \<noteq> lit ''[DONE]''" "lit ''lo'' \<noteq> lit ''[done]''"
    by simp_all
  then have "parseSSELine (lit ''data: lo'') = JStr (lit ''lo'')"
    using parseSSELine_priority[OF priority_eval_literal(1)] priority_eval_literal(2,3) by simp
  ultimately show ?thesis using priority_eval_object priority_eval_literal by simp
qed

text \<open>
  C10: for a data line whose payload parses to an object with none of the members
  \<open>delta\<close>, \<open>content\<close>, \<open>answer\<close> (absent, or \<open>null\<close>), and hence no \<open>delta.content\<close>, the result
  is the empty text and the read loop appends nothing for the line.
\<close>

theorem parseSSELine_no_field:
  assumes "startsWith (trim line) (lit ''data:'')"
      and "json_parse (trim (drop 5 (trim line))) = Some (JObj ms)"
      and "isNullish (lookupMember ms (lit ''delta''))"
      and "isNullish (lookupMember ms (lit ''content''))"
      and "isNullish (lookupMember ms (lit ''answer''))"
  shows "parseSSELine line = JStr [] \<and> lineAppend line = None"
proof -
  have "isNullish (optProp (lookupMember ms (lit ''delta'')) (lit ''content''))"
    using assms(3) by (auto simp add: isNullish_def optProp_def)
  then have "parseSSELine line = JStr []"
    using parseSSELine_object[OF assms(1,2)] assms(3-5)
    by (simp add: orElse_simps orValue_simps)
  then show ?thesis by (simp add: lineAppend_def)
qed

lemma no_field_eval:
  "startsWith (trim (lit ''data: {\"role\":\"assistant\",\"done\":false}'')) (lit ''data:'')"
  "json_parse (trim (drop 5 (trim (lit ''data: {\"role\":\"assistant\",\"done\":false}''))))
     = Some (JObj [((lit ''role''), JStr (lit ''assistant'')), ((lit ''done''), JBool False)])"
  by code_simp+

theorem parseSSELine_no_field_witness:
  "startsWith (trim (lit ''data: {\"role\":\"assistant\",\"done\":false}'')) (lit ''data:'')
   \<and> json_parse (trim (drop 5 (trim (lit ''data: {\"role\":\"assistant\",\"done\":false}''))))
       = Some (JObj [((lit ''role''), JStr (lit ''assistant'')), ((lit ''done''), JBool False)])
   \<and> isNullish (lookupMember [((lit ''role''), JStr (lit ''assistant'')), ((lit ''done''), JBool False)] (lit ''delta''))
   \<and> isNullish (lookupMember [((lit ''role''), JStr (lit ''assistant'')), ((lit ''done''), JBool False)] (lit ''content''))
   \<and> isNullish (lookupMember [((lit ''role''), JStr (lit ''assistant'')), ((lit ''done''), JBool False)] (lit ''answer''))
   \<and> parseSSELine (lit ''data: {\"role\":\"assistant\",\"done\":false}'') = JStr []
   \<and> lineAppend (lit ''data: {\"role\":\"assistant\",\"done\":false}'') = None"
proof -
  have n: "isNullish (lookupMember [((lit ''role''), JStr (lit ''assistant'')), ((lit ''done''), JBool False)] (lit ''delta''))"
    "isNullish (lookupMember [((lit ''role''), JStr (lit ''assistant'')), ((lit ''done''), JBool False)] (lit ''content''))"
    "isNullish (lookupMember [((lit ''role''), JStr (lit ''assistant'')), ((lit ''done''), JBool False)] (lit ''answer''))"
    by (simp_all add: isNullish_def lookupMember_def )
  from parseSSELine_no_field[OF no_field_eval n] no_field_eval n show ?thesis by blast
qed

section \<open>Properties of the request lifecycle\<close>

text \<open>
  The guard of \<open>send\<close> returns on a blank prompt and on a pending session; past the guard
  the session is pending, the error is cleared, the current controller is aborted and
  replaced, and the prompt is appended after the history window has been taken.
\<close>

lemma send_guard: "trim prompt = [] \<or> pending st \<Longrightarrow> send opts st prompt = (st, None)"
  by (auto simp add: send_def)

lemma send_issues:
  assumes "trim prompt \<noteq> []" and "\<not> pending st"
  shows "send opts st prompt =
           (st\<lparr>messages := messages st @ [\<lparr>role = User, content = prompt\<rparr>],
               pending := True, error := None,
               abortCtrl := Some (length (controllers st)),
               controllers := (case abortCtrl st of
                                 None \<Rightarrow> controllers st
                               | Some i \<Rightarrow> (controllers st)[i := True]) @ [False]\<rparr>,
            Some \<lparr>request =
                    \<lparr>req_prompt = prompt, req_history = buildHistory opts (messages st),
                     req_model = model opts,
                     req_maxTokens = (case maxTokens opts of None \<Rightarrow> 1536 | Some n \<Rightarrow> n),
                     req_stream = (stream opts = Some True)\<rparr>,
                  signal = length (controllers st)\<rparr>)"
  using assms
  by (simp add: send_def Let_def abortCurrent_def newController_def split: option.splits)

text \<open>
  C1: a second \<open>send\<close> on a pending session should supersede the first request: abort
  its controller, replace it, append the new prompt, issue a new request. The code has
  the steps for it, but they sit behind the guard: a session is pending from the first
  \<open>send\<close> until its request has settled, and a \<open>send\<close> in between returns at the guard.
  After \<open>send("first")\<close> on a fresh session, \<open>send("second")\<close> leaves the session as it
  was: the controller of the first request is not aborted and no request is issued.
\<close>

theorem send_while_pending_ignored:
  "send \<lparr>model = None, maxHistory = None, systemPrompt = None, maxTokens = None, stream = Some True\<rparr>
     (useChat \<lparr>model = None, maxHistory = None, systemPrompt = None, maxTokens = None,
               stream = Some True\<rparr>) (lit ''first'')
     = (\<lparr>messages = [\<lparr>role = User, content = (lit ''first'')\<rparr>], pending = True, error = None,
         abortCtrl = Some 0, controllers = [False]\<rparr>,
        Some \<lparr>request = \<lparr>req_prompt = (lit ''first''), req_history = [], req_model = None,
                          req_maxTokens = 1536, req_stream = True\<rparr>,
              signal = 0\<rparr>)
   \<and> send \<lparr>model = None, maxHistory = None, systemPrompt = None, maxTokens = None, stream = Some True\<rparr>
        \<lparr>messages = [\<lparr>role = User, content = (lit ''first'')\<rparr>], pending = True, error = None,
         abortCtrl = Some 0, controllers = [False]\<rparr> (lit ''second'')
     = (\<lparr>messages = [\<lparr>role = User, content = (lit ''first'')\<rparr>], pending = True, error = None,
         abortCtrl = Some 0, controllers = [False]\<rparr>,
        None)"
  by code_simp

section \<open>Properties of the exchange between client and handler\<close>

lemma handler_upstream_failure:
  assumes "openaiApiKey config \<noteq> None" and "openaiApiKey config \<noteq> Some []"
      and "\<not> up_ok upstream"
  shows "handler num config req upstream =
           Reply 500 (JObj [(lit ''error'', JStr (lit ''OpenAI error: '' @ upstreamText upstream))])"
  using assms by (auto simp add: handler_def)

lemma send_responded_failure:
  assumes "\<not> ok resp" and "bodyText resp \<noteq> []"
  shows "send_responded st (Resolved resp) =
           (st\<lparr>error := Some (lit ''API '' @ digitsOf (status resp) @ lit '' '' @ statusText resp @
                              lit '' - '' @ take 200 (bodyText resp)),
               pending := False\<rparr>, None)"
  using assms by (simp add: send_responded_def catchFinally_def Let_def )

lemma json_stringify_object_nonempty: "json_stringify num (JObj ms) \<noteq> []"
  by simp

lemma dollarFetch_error_status:
  assumes "400 \<le> status resp" and "status resp < 600"
  shows "dollarFetch rejection resp = Settles (Rejected (rejection resp))"
  using assms by (simp add: dollarFetch_def)

lemma send_answered_rejected:
  assumes "error st = None"
  shows "send_answered notCallable st (Rejected e) =
           st\<lparr>error := (if exn_name e = lit ''AbortError'' then None
                         else Some (case exn_message e of
                                      None \<Rightarrow> lit ''Unknown error''
                                    | Some m \<Rightarrow> m)),
              pending := False\<rparr>"
  using assms by (cases st) (simp add: send_answered_def catchFinally_def)

lemma quota_eval:
  "trim (lit ''hello'') \<noteq> []"
  "take 200 (json_stringify num
      (JObj [(lit ''error'', JStr (lit ''OpenAI error: '' @ lit ''quota exceeded''))]))
     = lit ''{\"error\":\"OpenAI error: quota exceeded\"}''"
  "lit ''API 500 '' @ lit ''Internal Server Error'' @ lit '' - '' @
     lit ''{\"error\":\"OpenAI error: quota exceeded\"}''
     = lit ''API 500 Internal Server Error - {\"error\":\"OpenAI error: quota exceeded\"}''"
  "includesText (lit ''API 500 Internal Server Error - {\"error\":\"OpenAI error: quota exceeded\"}'')
     (lit ''500'')"
  "includesText (lit ''API 500 Internal Server Error - {\"error\":\"OpenAI error: quota exceeded\"}'')
     (lit ''quota exceeded'')"
  "lit ''FetchError'' \<noteq> lit ''AbortError''"
  by code_simp+

lemma hi_there_eval:
  "json_parse (lit ''{\"choices\":[{\"message\":{\"content\":\"hi there\"}}]}'')
     = Some (JObj [(lit ''choices'',
                    JArr [JObj [(lit ''message'', JObj [(lit ''content'', JStr (lit ''hi there''))])]])])"
  "answerOf (JObj [(lit ''choices'',
                    JArr [JObj [(lit ''message'', JObj [(lit ''content'', JStr (lit ''hi there''))])]])])
     = JStr (lit ''hi there'')"
  "postProcessMarkdown (lit ''hi there'') = lit ''hi there'' @ [LF]"
  "json_parse (json_stringify num (JObj [(lit ''answer'', JStr (lit ''hi there''))]))
     = Some (JObj [(lit ''answer'', JStr (lit ''hi there''))])"
  "textMember [(lit ''answer'', JStr (lit ''hi there''))] (lit ''error'') = Some None"
  "lookupMember [(lit ''answer'', JStr (lit ''hi there''))] (lit ''answer'')
     = Some (JStr (lit ''hi there''))"
  by code_simp+

lemma handler_plain_answer:
  assumes "openaiApiKey config \<noteq> None" and "openaiApiKey config \<noteq> Some []"
      and "up_ok upstream" and "\<not> req_stream req"
      and "json_parse (upstreamText upstream) = Some data"
  shows "handler num config req upstream = Reply 200 (JObj [(lit ''answer'', answerOf data)])"
  using assms by (simp add: handler_def)

lemma dollarFetch_hi_there:
  "dollarFetch rejection
     \<lparr>ok = True, status = 200, statusText = reason,
      bodyText = json_stringify num (JObj [(lit ''answer'', JStr (lit ''hi there''))])\<rparr>
   = Settles (Resolved (Some \<lparr>answer = Some (JStr (lit ''hi there'')), reply_error = None\<rparr>))"
  by code_simp

lemma send_answered_text:
  "send_answered notCallable st (Resolved (Some \<lparr>answer = Some (JStr t), reply_error = None\<rparr>)) =
     st\<lparr>messages := messages st @ [\<lparr>role = Assistant, content = postProcessMarkdown t\<rparr>],
        pending := False\<rparr>"
  by (simp add: send_answered_def orValue_def)

lemma handler_streaming_shapes:
  assumes "openaiApiKey config \<noteq> None" and "openaiApiKey config \<noteq> Some []"
      and "up_ok upstream" and "req_stream req"
  shows "handler num config req upstream =
     (let upstreamCT = toLowerCase (case up_contentType upstream of None \<Rightarrow> [] | Some t \<Rightarrow> t)
      in if includesText upstreamCT ''text/event-stream'' then
              (case up_body upstream of
                 None \<Rightarrow> Streamed [lit '': ping'' @ [LF, LF]]
               | Some chunks \<Rightarrow> Streamed ((lit '': ping'' @ [LF, LF]) # chunks))
            else
              (case up_body upstream of
                 None \<Rightarrow> Streamed [lit '': ping'' @ [LF, LF]]
               | Some chunks \<Rightarrow>
                   if includesText upstreamCT ''application/json'' then
                     Streamed [lit '': ping'' @ [LF, LF],
                               lit ''data: '' @
                                 json_stringify num (JObj [(lit ''content'',
                                    (case json_parse (concat chunks) of
                                        None \<Rightarrow> JStr (concat chunks)
                                      | Some data \<Rightarrow> answerOf data))]) @ [LF, LF],
                               lit ''data: [DONE]'' @ [LF, LF]]
                   else
                     Streamed ((lit '': ping'' @ [LF, LF]) # concat (map chunkFrames chunks) @
                               [lit ''data: [DONE]'' @ [LF, LF]])))"
  using assms by (simp add: handler_def Let_def del: json_stringify.simps split: option.splits)

lemma bridge_eval:
  "\<not> includesText (toLowerCase ''application/json; charset=utf-8'') ''text/event-stream''"
  "includesText (toLowerCase ''application/json; charset=utf-8'') ''application/json''"
  "json_parse (concat [lit ''{\"choices\":[{\"message\":{\"content\":\"hi there\"}}]}''])
     = Some (JObj [(lit ''choices'',
                    JArr [JObj [(lit ''message'', JObj [(lit ''content'', JStr (lit ''hi there''))])]])])"
  "lit ''data: '' @ json_stringify num (JObj [(lit ''content'', JStr (lit ''hi there''))]) @ [LF, LF]
     = lit ''data: {\"content\":\"hi there\"}'' @ [LF, LF]"
  "lit '': ping'' @ [LF, LF] = [0x3A, 0x20, 0x70, 0x69, 0x6E, 0x67, 0x0A, 0x0A]"
  "lit ''data: [DONE]'' @ [LF, LF]
     = [0x64, 0x61, 0x74, 0x61, 0x3A, 0x20, 0x5B, 0x44, 0x4F, 0x4E, 0x45, 0x5D, 0x0A, 0x0A]"
  "parseSSELine (lit ''data: {\"content\":\"hi there\"}'') = JStr (lit ''hi there'')"
  "parseSSELine (lit ''data: [DONE]'') = JStr []"
  "parseSSELine (lit '': ping'') = JNull"
  by code_simp+


text \<open>
  An answer the backend writes with an escape is bridged as the code unit the escape
  denotes, which \<open>JSON.stringify\<close> writes as it is.
\<close>

lemma bridge_escaped_answer:
  "handler (\<lambda>n. n)
     \<lparr>openaiApiKey = Some (lit ''key''), openaiModel = lit ''gpt-4o-mini'',
      openaiBaseUrl = lit ''https://api.openai.com/v1''\<rparr>
     \<lparr>req_prompt = lit ''hello'', req_history = [], req_model = None, req_maxTokens = 1536,
      req_stream = True\<rparr>
     \<lparr>up_ok = True, up_status = 200, up_contentType = Some ''application/json'',
      up_body = Some [lit ''{\"choices\":[{\"message\":{\"content\":\"'' @ [BSL] @
                      lit ''u0163'' @ [BSL] @ lit ''n\"}}]}'']\<rparr>
   = Streamed [lit '': ping'' @ [LF, LF],
               lit ''data: {\"content\":\"'' @ [0x0163, BSL] @ lit ''n\"}'' @ [LF, LF],
               lit ''data: [DONE]'' @ [LF, LF]]"
  by code_simp
text \<open>
  C3, as stated: for every response of the backend that is not a success, the session
  error names the backend's status and holds the backend's error body, cut at a bounded
  length. With streaming this fails for a backend that answers 429 with the body
  \<open>slow down\<close>: the handler answers every failure of the backend with status 500, the
  session error is built from that response, and 429 occurs nowhere in it. Without
  streaming it fails for a backend that answers 500 with the body \<open>quota exceeded\<close>: the
  session error is the message of the error with which \<open>$fetch\<close> rejects the handler's
  response, and the message this library builds, here
  \<open>[POST] "/api/chat": 500 Internal Server Error\<close>, names the request and the status
  line and holds no part of the body.
\<close>

theorem upstream_failure_counterexample:
  "send \<lparr>model = None, maxHistory = None, systemPrompt = None, maxTokens = None, stream = Some True\<rparr>
     (useChat \<lparr>model = None, maxHistory = None, systemPrompt = None, maxTokens = None,
               stream = Some True\<rparr>) (lit ''hello'')
     = (\<lparr>messages = [\<lparr>role = User, content = lit ''hello''\<rparr>], pending = True, error = None,
         abortCtrl = Some 0, controllers = [False]\<rparr>,
        Some \<lparr>request = \<lparr>req_prompt = lit ''hello'', req_history = [], req_model = None,
                          req_maxTokens = 1536, req_stream = True\<rparr>,
              signal = 0\<rparr>)
   \<and> handler (\<lambda>n. n)
        \<lparr>openaiApiKey = Some (lit ''key''), openaiModel = lit ''gpt-4o-mini'',
         openaiBaseUrl = lit ''https://api.openai.com/v1''\<rparr>
        \<lparr>req_prompt = lit ''hello'', req_history = [], req_model = None, req_maxTokens = 1536,
         req_stream = True\<rparr>
        \<lparr>up_ok = False, up_status = 429, up_contentType = Some ''text/plain'',
         up_body = Some [lit ''slow down'']\<rparr>
     = Reply 500 (JObj [(lit ''error'', JStr (lit ''OpenAI error: slow down''))])
   \<and> replyResponse (\<lambda>n. n) (lit ''Internal Server Error'')
        (Reply 500 (JObj [(lit ''error'', JStr (lit ''OpenAI error: slow down''))]))
     = Some \<lparr>ok = False, status = 500, statusText = lit ''Internal Server Error'',
             bodyText = lit ''{\"error\":\"OpenAI error: slow down\"}''\<rparr>
   \<and> send_responded
        \<lparr>messages = [\<lparr>role = User, content = lit ''hello''\<rparr>], pending = True, error = None,
         abortCtrl = Some 0, controllers = [False]\<rparr>
        (Resolved \<lparr>ok = False, status = 500, statusText = lit ''Internal Server Error'',
                   bodyText = lit ''{\"error\":\"OpenAI error: slow down\"}''\<rparr>)
     = (\<lparr>messages = [\<lparr>role = User, content = lit ''hello''\<rparr>], pending = False,
         error = Some (lit ''API 500 Internal Server Error - {\"error\":\"OpenAI error: slow down\"}''),
         abortCtrl = Some 0, controllers = [False]\<rparr>, None)
   \<and> \<not> includesText (lit ''API 500 Internal Server Error - {\"error\":\"OpenAI error: slow down\"}'')
         (digitsOf 429)
   \<and> send \<lparr>model = None, maxHistory = None, systemPrompt = None, maxTokens = None, stream = None\<rparr>
        (useChat \<lparr>model = None, maxHistory = None, systemPrompt = None, maxTokens = None,
                  stream = None\<rparr>) (lit ''hello'')
     = (\<lparr>messages = [\<lparr>role = User, content = lit ''hello''\<rparr>], pending = True, error = None,
         abortCtrl = Some 0, controllers = [False]\<rparr>,
        Some \<lparr>request = \<lparr>req_prompt = lit ''hello'', req_history = [], req_model = None,
                          req_maxTokens = 1536, req_stream = False\<rparr>,
              signal = 0\<rparr>)
   \<and> handler (\<lambda>n. n)
        \<lparr>openaiApiKey = Some (lit ''key''), openaiModel = lit ''gpt-4o-mini'',
         openaiBaseUrl = lit ''https://api.openai.com/v1''\<rparr>
        \<lparr>req_prompt = lit ''hello'', req_history = [], req_model = None, req_maxTokens = 1536,
         req_stream = False\<rparr>
        \<lparr>up_ok = False, up_status = 500, up_contentType = Some ''text/plain'',
         up_body = Some [lit ''quota exceeded'']\<rparr>
     = Reply 500 (JObj [(lit ''error'', JStr (lit ''OpenAI error: quota exceeded''))])
   \<and> replyResponse (\<lambda>n. n) (lit ''Internal Server Error'')
        (Reply 500 (JObj [(lit ''error'', JStr (lit ''OpenAI error: quota exceeded''))]))
     = Some \<lparr>ok = False, status = 500, statusText = lit ''Internal Server Error'',
             bodyText = lit ''{\"error\":\"OpenAI error: quota exceeded\"}''\<rparr>
   \<and> dollarFetch
        (\<lambda>r. Exn (lit ''FetchError'')
                  (Some (lit ''[POST] \"/api/chat\": '' @ digitsOf (status r) @ lit '' '' @
                         statusText r)))
        \<lparr>ok = False, status = 500, statusText = lit ''Internal Server Error'',
         bodyText = lit ''{\"error\":\"OpenAI error: quota exceeded\"}''\<rparr>
     = Settles (Rejected (Exn (lit ''FetchError'')
                  (Some (lit ''[POST] \"/api/chat\": 500 Internal Server Error''))))
   \<and> send_answered (\<lambda>v. lit ''out.match is not a function'')
        \<lparr>messages = [\<lparr>role = User, content = lit ''hello''\<rparr>], pending = True, error = None,
         abortCtrl = Some 0, controllers = [False]\<rparr>
        (Rejected (Exn (lit ''FetchError'')
                  (Some (lit ''[POST] \"/api/chat\": 500 Internal Server Error''))))
     = \<lparr>messages = [\<lparr>role = User, content = lit ''hello''\<rparr>], pending = False,
        error = Some (lit ''[POST] \"/api/chat\": 500 Internal Server Error''),
        abortCtrl = Some 0, controllers = [False]\<rparr>
   \<and> \<not> includesText (lit ''[POST] \"/api/chat\": 500 Internal Server Error'')
         (lit ''quota exceeded'')"
  by code_simp

text \<open>
  C3, amended: for every response of the backend that is not a success, the handler
  replies with status 500 and the object \<open>{error: "OpenAI error: " + body}\<close>, whatever the
  backend's status was and with the body at full length. With streaming, the session
  error is \<open>API 500\<close>, the reason phrase, and the first 200 code units of that reply as a
  document. Without streaming, the session error is the message of the error with which
  \<open>$fetch\<close> rejects that reply (\<open>Unknown error\<close> when it has none; nothing is recorded for
  an error named \<open>AbortError\<close>). In both modes the session is no longer pending and the
  message list is the previous one followed by the user's prompt. For a backend status of
  500 with the body \<open>quota exceeded\<close> and streaming, the session error contains \<open>500\<close> and
  \<open>quota exceeded\<close>.
\<close>

theorem upstream_failure_surfaced:
  assumes "trim prompt \<noteq> []" and "\<not> pending st"
      and "openaiApiKey config \<noteq> None" and "openaiApiKey config \<noteq> Some []"
      and "\<not> up_ok upstream"
  shows "\<exists>st1 issued resp.
           send opts st prompt = (st1, Some issued)
         \<and> req_stream (request issued) = (stream opts = Some True)
         \<and> messages st1 = messages st @ [\<lparr>role = User, content = prompt\<rparr>]
         \<and> handler num config (request issued) upstream =
               Reply 500 (JObj [(lit ''error'', JStr (lit ''OpenAI error: '' @ upstreamText upstream))])
         \<and> replyResponse num reason (handler num config (request issued) upstream) = Some resp
         \<and> (stream opts = Some True \<longrightarrow>
               send_responded st1 (Resolved resp) =
                 (st1\<lparr>error := Some (lit ''API 500 '' @ reason @ lit '' - '' @
                          take 200 (json_stringify num
                            (JObj [(lit ''error'',
                                    JStr (lit ''OpenAI error: '' @ upstreamText upstream))]))),
                      pending := False\<rparr>, None))
         \<and> (stream opts \<noteq> Some True \<longrightarrow>
               dollarFetch rejection resp = Settles (Rejected (rejection resp))
             \<and> send_answered notCallable st1 (Rejected (rejection resp)) =
                 st1\<lparr>error := (if exn_name (rejection resp) = lit ''AbortError'' then None
                                else Some (case exn_message (rejection resp) of
                                             None \<Rightarrow> lit ''Unknown error''
                                           | Some m \<Rightarrow> m)),
                     pending := False\<rparr>)"
proof -
  let ?obj = "JObj [(lit ''error'', JStr (lit ''OpenAI error: '' @ upstreamText upstream))]"
  let ?resp = "\<lparr>ok = False, status = 500, statusText = reason,
                bodyText = json_stringify num ?obj\<rparr>"
  obtain st1 issued where s: "send opts st prompt = (st1, Some issued)"
    and m: "messages st1 = messages st @ [\<lparr>role = User, content = prompt\<rparr>]"
    and q: "req_stream (request issued) = (stream opts = Some True)"
    and e0: "error st1 = None"
    using send_issues[OF assms(1,2), of opts] by simp
  have h: "handler num config (request issued) upstream = Reply 500 ?obj"
    by (rule handler_upstream_failure[OF assms(3,4,5)])
  have r: "replyResponse num reason (handler num config (request issued) upstream) = Some ?resp"
    by (simp add: h replyResponse_def isSuccess_def del: json_stringify.simps)
  have d: "digitsOf 500 = lit ''500''" "lit ''API '' @ lit ''500'' @ lit '' '' = lit ''API 500 ''"
    by code_simp+
  have "json_stringify num ?obj \<noteq> []"
    by (rule json_stringify_object_nonempty)
  then have "send_responded st1 (Resolved ?resp) =
           (st1\<lparr>error := Some (lit ''API '' @ digitsOf 500 @ lit '' '' @ reason @ lit '' - '' @
                               take 200 (json_stringify num ?obj)),
                pending := False\<rparr>, None)"
    using send_responded_failure[of ?resp st1] by (simp del: json_stringify.simps digitsOf.simps)
  then have e: "send_responded st1 (Resolved ?resp) =
           (st1\<lparr>error := Some (lit ''API 500 '' @ reason @ lit '' - '' @
                               take 200 (json_stringify num ?obj)),
                pending := False\<rparr>, None)"
    using d by (simp del: json_stringify.simps digitsOf.simps)
  have f: "dollarFetch rejection ?resp = Settles (Rejected (rejection ?resp))"
    by (rule dollarFetch_error_status) simp_all
  have a: "send_answered notCallable st1 (Rejected (rejection ?resp)) =
             st1\<lparr>error := (if exn_name (rejection ?resp) = lit ''AbortError'' then None
                            else Some (case exn_message (rejection ?resp) of
                                         None \<Rightarrow> lit ''Unknown error''
                                       | Some m \<Rightarrow> m)),
                 pending := False\<rparr>"
    by (rule send_answered_rejected[OF e0])
  show ?thesis
    using s q m h r e f a by blast
qed

theorem upstream_failure_surfaced_witness:
  "trim (lit ''hello'') \<noteq> []
   \<and> \<not> pending (useChat \<lparr>model = None, maxHistory = None, systemPrompt = None, maxTokens = None,
                          stream = Some True\<rparr>)
   \<and> \<not> up_ok \<lparr>up_ok = False, up_status = 500, up_contentType = Some ''text/plain'',
               up_body = Some [lit ''quota exceeded'']\<rparr>
   \<and> (\<exists>st1 issued resp.
         send \<lparr>model = None, maxHistory = None, systemPrompt = None, maxTokens = None,
               stream = Some True\<rparr>
              (useChat \<lparr>model = None, maxHistory = None, systemPrompt = None, maxTokens = None,
                        stream = Some True\<rparr>) (lit ''hello'') = (st1, Some issued)
       \<and> replyResponse (\<lambda>n. n) (lit ''Internal Server Error'')
            (handler (\<lambda>n. n)
               \<lparr>openaiApiKey = Some (lit ''key''), openaiModel = lit ''gpt-4o-mini'',
                openaiBaseUrl = lit ''https://api.openai.com/v1''\<rparr>
               (request issued)
               \<lparr>up_ok = False, up_status = 500, up_contentType = Some ''text/plain'',
                up_body = Some [lit ''quota exceeded'']\<rparr>) = Some resp
       \<and> error (fst (send_responded st1 (Resolved resp))) =
            Some (lit ''API 500 Internal Server Error - {\"error\":\"OpenAI error: quota exceeded\"}'')
       \<and> includesText (the (error (fst (send_responded st1 (Resolved resp))))) (lit ''500'')
       \<and> includesText (the (error (fst (send_responded st1 (Resolved resp)))))
            (lit ''quota exceeded'')
       \<and> \<not> pending (fst (send_responded st1 (Resolved resp)))
       \<and> messages (fst (send_responded st1 (Resolved resp))) =
            [\<lparr>role = User, content = lit ''hello''\<rparr>])
   \<and> \<not> pending (useChat \<lparr>model = None, maxHistory = None, systemPrompt = None, maxTokens = None,
                          stream = None\<rparr>)
   \<and> (\<exists>st1 issued resp.
         send \<lparr>model = None, maxHistory = None, systemPrompt = None, maxTokens = None,
               stream = None\<rparr>
              (useChat \<lparr>model = None, maxHistory = None, systemPrompt = None, maxTokens = None,
                        stream = None\<rparr>) (lit ''hello'') = (st1, Some issued)
       \<and> replyResponse (\<lambda>n. n) (lit ''Internal Server Error'')
            (handler (\<lambda>n. n)
               \<lparr>openaiApiKey = Some (lit ''key''), openaiModel = lit ''gpt-4o-mini'',
                openaiBaseUrl = lit ''https://api.openai.com/v1''\<rparr>
               (request issued)
               \<lparr>up_ok = False, up_status = 500, up_contentType = Some ''text/plain'',
                up_body = Some [lit ''quota exceeded'']\<rparr>) = Some resp
       \<and> dollarFetch (\<lambda>r. Exn (lit ''FetchError'') (Some (statusText r))) resp
            = Settles (Rejected (Exn (lit ''FetchError'') (Some (statusText resp))))
       \<and> error (send_answered (\<lambda>v. []) st1
                   (Rejected (Exn (lit ''FetchError'') (Some (statusText resp)))))
            = Some (statusText resp)
       \<and> \<not> pending (send_answered (\<lambda>v. []) st1
                        (Rejected (Exn (lit ''FetchError'') (Some (statusText resp)))))
       \<and> messages (send_answered (\<lambda>v. []) st1
                      (Rejected (Exn (lit ''FetchError'') (Some (statusText resp)))))
            = [\<lparr>role = User, content = lit ''hello''\<rparr>])"
proof -
  let ?optsS = "\<lparr>model = None, maxHistory = None, systemPrompt = None, maxTokens = None,
                 stream = Some True\<rparr>"
  let ?optsP = "\<lparr>model = None, maxHistory = None, systemPrompt = None, maxTokens = None,
                 stream = None\<rparr>"
  let ?cfg = "\<lparr>openaiApiKey = Some (lit ''key''), openaiModel = lit ''gpt-4o-mini'',
               openaiBaseUrl = lit ''https://api.openai.com/v1''\<rparr>"
  let ?up = "\<lparr>up_ok = False, up_status = 500, up_contentType = Some ''text/plain'',
              up_body = Some [lit ''quota exceeded'']\<rparr>"
  let ?rej = "\<lambda>r. Exn (lit ''FetchError'') (Some (statusText r))"
  have k: "openaiApiKey ?cfg \<noteq> None" "openaiApiKey ?cfg \<noteq> Some []" "\<not> up_ok ?up"
    by simp_all
  have pS: "\<not> pending (useChat ?optsS)" and mS: "messages (useChat ?optsS) = []"
    and pP: "\<not> pending (useChat ?optsP)" and mP: "messages (useChat ?optsP) = []"
    by (simp_all add: useChat_def systemMessages_def)
  have t: "upstreamText ?up = lit ''quota exceeded''"
    by (simp add: upstreamText_def)
  from upstream_failure_surfaced[of "lit ''hello''" "useChat ?optsS" ?cfg ?up ?optsS "\<lambda>n. n"
      "lit ''Internal Server Error''" ?rej "\<lambda>v. []", OF quota_eval(1) pS k]
  obtain st1 issued resp where
        s: "send ?optsS (useChat ?optsS) (lit ''hello'') = (st1, Some issued)"
    and m: "messages st1 = messages (useChat ?optsS) @ [\<lparr>role = User, content = lit ''hello''\<rparr>]"
    and r: "replyResponse (\<lambda>n. n) (lit ''Internal Server Error'')
              (handler (\<lambda>n. n) ?cfg (request issued) ?up) = Some resp"
    and e: "send_responded st1 (Resolved resp) =
              (st1\<lparr>error := Some (lit ''API 500 '' @ lit ''Internal Server Error'' @ lit '' - '' @
                       take 200 (json_stringify (\<lambda>n. n)
                         (JObj [(lit ''error'', JStr (lit ''OpenAI error: '' @ upstreamText ?up))]))),
                   pending := False\<rparr>, None)"
    by auto
  have e': "fst (send_responded st1 (Resolved resp)) =
              st1\<lparr>error := Some (lit ''API 500 Internal Server Error - {\"error\":\"OpenAI error: quota exceeded\"}''),
                  pending := False\<rparr>"
    unfolding e t quota_eval(2) quota_eval(3) by simp
  have "send ?optsS (useChat ?optsS) (lit ''hello'') = (st1, Some issued)
       \<and> replyResponse (\<lambda>n. n) (lit ''Internal Server Error'')
            (handler (\<lambda>n. n) ?cfg (request issued) ?up) = Some resp
       \<and> error (fst (send_responded st1 (Resolved resp))) =
            Some (lit ''API 500 Internal Server Error - {\"error\":\"OpenAI error: quota exceeded\"}'')
       \<and> includesText (the (error (fst (send_responded st1 (Resolved resp))))) (lit ''500'')
       \<and> includesText (the (error (fst (send_responded st1 (Resolved resp)))))
            (lit ''quota exceeded'')
       \<and> \<not> pending (fst (send_responded st1 (Resolved resp)))
       \<and> messages (fst (send_responded st1 (Resolved resp))) =
            [\<lparr>role = User, content = lit ''hello''\<rparr>]"
    using s r m mS quota_eval(4,5) e' by (simp del: includesText.simps)
  then have streaming: "\<exists>st1 issued resp.
         send ?optsS (useChat ?optsS) (lit ''hello'') = (st1, Some issued)
       \<and> replyResponse (\<lambda>n. n) (lit ''Internal Server Error'')
            (handler (\<lambda>n. n) ?cfg (request issued) ?up) = Some resp
       \<and> error (fst (send_responded st1 (Resolved resp))) =
            Some (lit ''API 500 Internal Server Error - {\"error\":\"OpenAI error: quota exceeded\"}'')
       \<and> includesText (the (error (fst (send_responded st1 (Resolved resp))))) (lit ''500'')
       \<and> includesText (the (error (fst (send_responded st1 (Resolved resp)))))
            (lit ''quota exceeded'')
       \<and> \<not> pending (fst (send_responded st1 (Resolved resp)))
       \<and> messages (fst (send_responded st1 (Resolved resp))) =
            [\<lparr>role = User, content = lit ''hello''\<rparr>]"
    by blast
  from upstream_failure_surfaced[of "lit ''hello''" "useChat ?optsP" ?cfg ?up ?optsP "\<lambda>n. n"
      "lit ''Internal Server Error''" ?rej "\<lambda>v. []", OF quota_eval(1) pP k]
  obtain st2 issued2 resp2 where
        s2: "send ?optsP (useChat ?optsP) (lit ''hello'') = (st2, Some issued2)"
    and m2: "messages st2 = messages (useChat ?optsP) @ [\<lparr>role = User, content = lit ''hello''\<rparr>]"
    and r2: "replyResponse (\<lambda>n. n) (lit ''Internal Server Error'')
              (handler (\<lambda>n. n) ?cfg (request issued2) ?up) = Some resp2"
    and f2: "dollarFetch ?rej resp2 = Settles (Rejected (?rej resp2))"
    and a2: "send_answered (\<lambda>v. []) st2 (Rejected (?rej resp2)) =
               st2\<lparr>error := (if exn_name (?rej resp2) = lit ''AbortError'' then None
                              else Some (case exn_message (?rej resp2) of
                                           None \<Rightarrow> lit ''Unknown error''
                                         | Some m \<Rightarrow> m)),
                   pending := False\<rparr>"
    by auto
  have a2': "send_answered (\<lambda>v. []) st2 (Rejected (Exn (lit ''FetchError'') (Some (statusText resp2)))) =
               st2\<lparr>error := Some (statusText resp2), pending := False\<rparr>"
    using a2 quota_eval(6) by simp
  have "send ?optsP (useChat ?optsP) (lit ''hello'') = (st2, Some issued2)
       \<and> replyResponse (\<lambda>n. n) (lit ''Internal Server Error'')
            (handler (\<lambda>n. n) ?cfg (request issued2) ?up) = Some resp2
       \<and> dollarFetch ?rej resp2 = Settles (Rejected (Exn (lit ''FetchError'') (Some (statusText resp2))))
       \<and> error (send_answered (\<lambda>v. []) st2
                   (Rejected (Exn (lit ''FetchError'') (Some (statusText resp2)))))
            = Some (statusText resp2)
       \<and> \<not> pending (send_answered (\<lambda>v. []) st2
                        (Rejected (Exn (lit ''FetchError'') (Some (statusText resp2)))))
       \<and> messages (send_answered (\<lambda>v. []) st2
                      (Rejected (Exn (lit ''FetchError'') (Some (statusText resp2)))))
            = [\<lparr>role = User, content = lit ''hello''\<rparr>]"
    using s2 r2 f2 m2 mP a2' by simp
  then have plain: "\<exists>st1 issued resp.
         send ?optsP (useChat ?optsP) (lit ''hello'') = (st1, Some issued)
       \<and> replyResponse (\<lambda>n. n) (lit ''Internal Server Error'')
            (handler (\<lambda>n. n) ?cfg (request issued) ?up) = Some resp
       \<and> dollarFetch ?rej resp = Settles (Rejected (Exn (lit ''FetchError'') (Some (statusText resp))))
       \<and> error (send_answered (\<lambda>v. []) st1
                   (Rejected (Exn (lit ''FetchError'') (Some (statusText resp)))))
            = Some (statusText resp)
       \<and> \<not> pending (send_answered (\<lambda>v. []) st1
                        (Rejected (Exn (lit ''FetchError'') (Some (statusText resp)))))
       \<and> messages (send_answered (\<lambda>v. []) st1
                      (Rejected (Exn (lit ''FetchError'') (Some (statusText resp)))))
            = [\<lparr>role = User, content = lit ''hello''\<rparr>]"
    by blast
  show ?thesis
    using quota_eval(1) pS pP k(3) streaming plain by blast
qed

text \<open>
  C8: without streaming, on a session that is not pending and a prompt that is not blank,
  when the backend answers with the document
  \<open>{"choices":[{"message":{"content":"hi there"}}]}\<close>, the handler returns
  \<open>{answer: "hi there"}\<close>, \<open>$fetch\<close> resolves with it, and the session ends with the
  previous messages, the user's prompt and one assistant message \<open>hi there\<close> followed by a
  line feed; no error is recorded and the session is no longer pending.
\<close>

theorem plain_answer_hi_there:
  assumes "trim prompt \<noteq> []" and "\<not> pending st" and "stream opts \<noteq> Some True"
      and "openaiApiKey config \<noteq> None" and "openaiApiKey config \<noteq> Some []"
      and "up_ok upstream"
      and "upstreamText upstream = lit ''{\"choices\":[{\"message\":{\"content\":\"hi there\"}}]}''"
  shows "\<exists>st1 issued resp reply.
           send opts st prompt = (st1, Some issued)
         \<and> \<not> req_stream (request issued)
         \<and> handler num config (request issued) upstream =
               Reply 200 (JObj [(lit ''answer'', JStr (lit ''hi there''))])
         \<and> replyResponse num reason (handler num config (request issued) upstream) = Some resp
         \<and> dollarFetch rejection resp = Settles (Resolved (Some reply))
         \<and> messages (send_answered notCallable st1 (Resolved (Some reply))) =
               messages st @ [\<lparr>role = User, content = prompt\<rparr>,
                              \<lparr>role = Assistant, content = lit ''hi there'' @ [LF]\<rparr>]
         \<and> error (send_answered notCallable st1 (Resolved (Some reply))) = None
         \<and> \<not> pending (send_answered notCallable st1 (Resolved (Some reply)))"
proof -
  let ?obj = "JObj [(lit ''answer'', JStr (lit ''hi there''))]"
  let ?resp = "\<lparr>ok = True, status = 200, statusText = reason, bodyText = json_stringify num ?obj\<rparr>"
  let ?reply = "\<lparr>answer = Some (JStr (lit ''hi there'')), reply_error = None\<rparr>"
  obtain st1 issued where s: "send opts st prompt = (st1, Some issued)"
    and m: "messages st1 = messages st @ [\<lparr>role = User, content = prompt\<rparr>]"
    and e: "error st1 = None"
    and q: "\<not> req_stream (request issued)"
    using send_issues[OF assms(1,2), of opts] assms(3) by simp
  have h: "handler num config (request issued) upstream = Reply 200 ?obj"
    using handler_plain_answer[OF assms(4,5,6) q, of _ num] hi_there_eval(1,2) assms(7) by simp
  have r: "replyResponse num reason (handler num config (request issued) upstream) = Some ?resp"
    by (simp add: h replyResponse_def isSuccess_def del: json_stringify.simps)
  have d: "dollarFetch rejection ?resp = Settles (Resolved (Some ?reply))"
    by (rule dollarFetch_hi_there)
  have a: "send_answered notCallable st1 (Resolved (Some ?reply)) =
             st1\<lparr>messages := messages st1 @ [\<lparr>role = Assistant, content = lit ''hi there'' @ [LF]\<rparr>],
                 pending := False\<rparr>"
    unfolding send_answered_text hi_there_eval(3) ..
  have "messages (send_answered notCallable st1 (Resolved (Some ?reply))) =
               messages st @ [\<lparr>role = User, content = prompt\<rparr>,
                              \<lparr>role = Assistant, content = lit ''hi there'' @ [LF]\<rparr>]"
       "error (send_answered notCallable st1 (Resolved (Some ?reply))) = None"
       "\<not> pending (send_answered notCallable st1 (Resolved (Some ?reply)))"
    unfolding a using m e by simp_all
  with s q h r d show ?thesis by blast
qed

theorem plain_answer_hi_there_witness:
  "trim (lit ''hello'') \<noteq> []
   \<and> \<not> pending (useChat \<lparr>model = None, maxHistory = None, systemPrompt = None, maxTokens = None,
                          stream = None\<rparr>)
   \<and> upstreamText \<lparr>up_ok = True, up_status = 200, up_contentType = Some ''application/json'',
                   up_body = Some [lit ''{\"choices\":[{\"mess'',
                                   lit ''age\":{\"content\":\"hi there\"}}]}'']\<rparr>
       = lit ''{\"choices\":[{\"message\":{\"content\":\"hi there\"}}]}''
   \<and> (\<exists>st1 issued resp reply.
         send \<lparr>model = None, maxHistory = None, systemPrompt = None, maxTokens = None, stream = None\<rparr>
              (useChat \<lparr>model = None, maxHistory = None, systemPrompt = None, maxTokens = None,
                        stream = None\<rparr>) (lit ''hello'') = (st1, Some issued)
       \<and> replyResponse (\<lambda>n. n) (lit ''OK'')
            (handler (\<lambda>n. n)
               \<lparr>openaiApiKey = Some (lit ''key''), openaiModel = lit ''gpt-4o-mini'',
                openaiBaseUrl = lit ''https://api.openai.com/v1''\<rparr>
               (request issued)
               \<lparr>up_ok = True, up_status = 200, up_contentType = Some ''application/json'',
                up_body = Some [lit ''{\"choices\":[{\"mess'',
                                lit ''age\":{\"content\":\"hi there\"}}]}'']\<rparr>) = Some resp
       \<and> dollarFetch (\<lambda>r. Exn (lit ''FetchError'') None) resp = Settles (Resolved (Some reply))
       \<and> messages (send_answered (\<lambda>v. []) st1 (Resolved (Some reply))) =
            [\<lparr>role = User, content = lit ''hello''\<rparr>,
             \<lparr>role = Assistant, content = lit ''hi there'' @ [LF]\<rparr>])"
proof -
  let ?opts = "\<lparr>model = None, maxHistory = None, systemPrompt = None, maxTokens = None,
                stream = None\<rparr>"
  let ?cfg = "\<lparr>openaiApiKey = Some (lit ''key''), openaiModel = lit ''gpt-4o-mini'',
               openaiBaseUrl = lit ''https://api.openai.com/v1''\<rparr>"
  let ?up = "\<lparr>up_ok = True, up_status = 200, up_contentType = Some ''application/json'',
              up_body = Some [lit ''{\"choices\":[{\"mess'',
                              lit ''age\":{\"content\":\"hi there\"}}]}'']\<rparr>"
  have h: "trim (lit ''hello'') \<noteq> []"
    by code_simp
  have p: "\<not> pending (useChat ?opts)" and m0: "messages (useChat ?opts) = []"
    by (simp_all add: useChat_def systemMessages_def)
  have k: "stream ?opts \<noteq> Some True" "openaiApiKey ?cfg \<noteq> None" "openaiApiKey ?cfg \<noteq> Some []"
      "up_ok ?up"
    by simp_all
  have t: "upstreamText ?up = lit ''{\"choices\":[{\"message\":{\"content\":\"hi there\"}}]}''"
    by code_simp
  from plain_answer_hi_there[of "lit ''hello''" "useChat ?opts" ?opts ?cfg ?up "\<lambda>n. n" "lit ''OK''"
      "\<lambda>r. Exn (lit ''FetchError'') None" "\<lambda>v. []", OF h p k t]
  obtain st1 issued resp reply where
        "send ?opts (useChat ?opts) (lit ''hello'') = (st1, Some issued)"
    and "replyResponse (\<lambda>n. n) (lit ''OK'') (handler (\<lambda>n. n) ?cfg (request issued) ?up) = Some resp"
    and "dollarFetch (\<lambda>r. Exn (lit ''FetchError'') None) resp = Settles (Resolved (Some reply))"
    and "messages (send_answered (\<lambda>v. []) st1 (Resolved (Some reply))) =
           messages (useChat ?opts) @ [\<lparr>role = User, content = lit ''hello''\<rparr>,
                                       \<lparr>role = Assistant, content = lit ''hi there'' @ [LF]\<rparr>]"
    by blast
  then have "\<exists>st1 issued resp reply.
         send ?opts (useChat ?opts) (lit ''hello'') = (st1, Some issued)
       \<and> replyResponse (\<lambda>n. n) (lit ''OK'') (handler (\<lambda>n. n) ?cfg (request issued) ?up) = Some resp
       \<and> dollarFetch (\<lambda>r. Exn (lit ''FetchError'') None) resp = Settles (Resolved (Some reply))
       \<and> messages (send_answered (\<lambda>v. []) st1 (Resolved (Some reply))) =
            [\<lparr>role = User, content = lit ''hello''\<rparr>,
             \<lparr>role = Assistant, content = lit ''hi there'' @ [LF]\<rparr>]"
    unfolding m0 by auto
  then show ?thesis
    using h p t by blast
qed

text \<open>
  C9: with streaming and a successful backend response, the first thing the handler
  writes is the keep-alive comment \<open>: ping\<close> and a blank line, whatever the shape of the
  response: a relayed event stream, a bridged document, a wrapped text stream, or a
  response without body. On the bridge (a body, a content type that names
  \<open>application/json\<close> and not \<open>text/event-stream\<close>) it then writes one frame \<open>data: \<close>
  followed by \<open>{content: answer}\<close> as a document and a blank line, where the answer is
  extracted from the parsed body or is the body itself when it does not parse, then one
  frame \<open>data: [DONE]\<close> and a blank line, and ends the stream.
\<close>

theorem handler_ping_and_bridge:
  assumes "openaiApiKey config \<noteq> None" and "openaiApiKey config \<noteq> Some []"
      and "up_ok upstream" and "req_stream req"
  shows "(\<exists>ws. handler num config req upstream =
                Streamed ([0x3A, 0x20, 0x70, 0x69, 0x6E, 0x67, 0x0A, 0x0A] # ws))
       \<and> (\<forall>chunks.
             up_body upstream = Some chunks
           \<and> includesText (toLowerCase (case up_contentType upstream of None \<Rightarrow> [] | Some t \<Rightarrow> t))
                   ''text/event-stream''
           \<longrightarrow> handler num config req upstream =
                 Streamed ([0x3A, 0x20, 0x70, 0x69, 0x6E, 0x67, 0x0A, 0x0A] # chunks))
       \<and> (\<forall>chunks.
             up_body upstream = Some chunks
           \<and> \<not> includesText (toLowerCase (case up_contentType upstream of None \<Rightarrow> [] | Some t \<Rightarrow> t))
                   ''text/event-stream''
           \<and> \<not> includesText (toLowerCase (case up_contentType upstream of None \<Rightarrow> [] | Some t \<Rightarrow> t))
                   ''application/json''
           \<longrightarrow> handler num config req upstream =
                 Streamed ([0x3A, 0x20, 0x70, 0x69, 0x6E, 0x67, 0x0A, 0x0A] #
                           concat (map chunkFrames chunks) @
                           [ [0x64, 0x61, 0x74, 0x61, 0x3A, 0x20, 0x5B, 0x44, 0x4F, 0x4E, 0x45, 0x5D,
                             0x0A, 0x0A]]))
       \<and> (\<forall>chunks.
             up_body upstream = Some chunks
           \<and> \<not> includesText (toLowerCase (case up_contentType upstream of None \<Rightarrow> [] | Some t \<Rightarrow> t))
                   ''text/event-stream''
           \<and> includesText (toLowerCase (case up_contentType upstream of None \<Rightarrow> [] | Some t \<Rightarrow> t))
                   ''application/json''
           \<longrightarrow> handler num config req upstream =
                 Streamed [ [0x3A, 0x20, 0x70, 0x69, 0x6E, 0x67, 0x0A, 0x0A],
                           [0x64, 0x61, 0x74, 0x61, 0x3A, 0x20] @
                             json_stringify num (JObj [(lit ''content'',
                                (case json_parse (concat chunks) of
                                    None \<Rightarrow> JStr (concat chunks)
                                  | Some data \<Rightarrow> answerOf data))]) @ [0x0A, 0x0A],
                           [0x64, 0x61, 0x74, 0x61, 0x3A, 0x20, 0x5B, 0x44, 0x4F, 0x4E, 0x45, 0x5D,
                            0x0A, 0x0A]])"
proof -
  have l: "lit ''data: '' = [0x64, 0x61, 0x74, 0x61, 0x3A, 0x20]"
    by code_simp
  show ?thesis
    using handler_streaming_shapes[OF assms, of num]
    unfolding bridge_eval(5,6) l
    by (auto simp add: Let_def simp del: json_stringify.simps split: option.splits)
qed


theorem handler_ping_and_bridge_witness:
  "openaiApiKey \<lparr>openaiApiKey = Some (lit ''key''), openaiModel = lit ''gpt-4o-mini'',
                 openaiBaseUrl = lit ''https://api.openai.com/v1''\<rparr> \<noteq> None
   \<and> openaiApiKey \<lparr>openaiApiKey = Some (lit ''key''), openaiModel = lit ''gpt-4o-mini'',
                 openaiBaseUrl = lit ''https://api.openai.com/v1''\<rparr> \<noteq> Some []
   \<and> up_ok \<lparr>up_ok = True, up_status = 200,
            up_contentType = Some ''application/json; charset=utf-8'',
            up_body = Some [lit ''{\"choices\":[{\"message\":{\"content\":\"hi there\"}}]}'']\<rparr>
   \<and> req_stream \<lparr>req_prompt = lit ''hello'', req_history = [], req_model = None,
                 req_maxTokens = 1536, req_stream = True\<rparr>
   \<and> \<not> includesText (toLowerCase ''application/json; charset=utf-8'') ''text/event-stream''
   \<and> includesText (toLowerCase ''application/json; charset=utf-8'') ''application/json''
   \<and> handler (\<lambda>n. n)
        \<lparr>openaiApiKey = Some (lit ''key''), openaiModel = lit ''gpt-4o-mini'',
         openaiBaseUrl = lit ''https://api.openai.com/v1''\<rparr>
        \<lparr>req_prompt = lit ''hello'', req_history = [], req_model = None, req_maxTokens = 1536,
         req_stream = True\<rparr>
        \<lparr>up_ok = True, up_status = 200,
         up_contentType = Some ''application/json; charset=utf-8'',
         up_body = Some [lit ''{\"choices\":[{\"message\":{\"content\":\"hi there\"}}]}'']\<rparr>
     = Streamed [lit '': ping'' @ [LF, LF],
                 lit ''data: {\"content\":\"hi there\"}'' @ [LF, LF],
                 lit ''data: [DONE]'' @ [LF, LF]]"
proof -
  let ?cfg = "\<lparr>openaiApiKey = Some (lit ''key''), openaiModel = lit ''gpt-4o-mini'',
               openaiBaseUrl = lit ''https://api.openai.com/v1''\<rparr>"
  let ?req = "\<lparr>req_prompt = lit ''hello'', req_history = [], req_model = None,
               req_maxTokens = 1536, req_stream = True\<rparr>"
  let ?body = "lit ''{\"choices\":[{\"message\":{\"content\":\"hi there\"}}]}''"
  let ?up = "\<lparr>up_ok = True, up_status = 200,
              up_contentType = Some ''application/json; charset=utf-8'',
              up_body = Some [?body]\<rparr>"
  have k: "openaiApiKey ?cfg \<noteq> None" "openaiApiKey ?cfg \<noteq> Some []" "up_ok ?up" "req_stream ?req"
    by simp_all
  have b: "up_body ?up = Some [?body]"
    and c: "(case up_contentType ?up of None \<Rightarrow> [] | Some t \<Rightarrow> t) = ''application/json; charset=utf-8''"
    by simp_all
  note bridge = handler_ping_and_bridge[OF k, of "\<lambda>n. n", THEN conjunct2, THEN conjunct2,
      THEN conjunct2, rule_format, of "[?body]"]
  have written: "handler (\<lambda>n. n) ?cfg ?req ?up =
          Streamed [ [0x3A, 0x20, 0x70, 0x69, 0x6E, 0x67, 0x0A, 0x0A],
                    [0x64, 0x61, 0x74, 0x61, 0x3A, 0x20] @
                      json_stringify (\<lambda>n. n) (JObj [(lit ''content'',
                         (case json_parse (concat [?body]) of
                             None \<Rightarrow> JStr (concat [?body])
                           | Some data \<Rightarrow> answerOf data))]) @ [0x0A, 0x0A],
                    [0x64, 0x61, 0x74, 0x61, 0x3A, 0x20, 0x5B, 0x44, 0x4F, 0x4E, 0x45, 0x5D,
                     0x0A, 0x0A]]"
    by (rule bridge) (simp only: b c bridge_eval(1,2) simp_thms)
  have frames: "Streamed [ [0x3A, 0x20, 0x70, 0x69, 0x6E, 0x67, 0x0A, 0x0A],
                    [0x64, 0x61, 0x74, 0x61, 0x3A, 0x20] @
                      json_stringify (\<lambda>n. n) (JObj [(lit ''content'',
                         (case json_parse (concat [?body]) of
                             None \<Rightarrow> JStr (concat [?body])
                           | Some data \<Rightarrow> answerOf data))]) @ [0x0A, 0x0A],
                    [0x64, 0x61, 0x74, 0x61, 0x3A, 0x20, 0x5B, 0x44, 0x4F, 0x4E, 0x45, 0x5D,
                     0x0A, 0x0A]]
        = Streamed [lit '': ping'' @ [LF, LF],
                    lit ''data: {\"content\":\"hi there\"}'' @ [LF, LF],
                    lit ''data: [DONE]'' @ [LF, LF]]"
    by code_simp
  from written frames
  have "handler (\<lambda>n. n) ?cfg ?req ?up =
          Streamed [lit '': ping'' @ [LF, LF],
                    lit ''data: {\"content\":\"hi there\"}'' @ [LF, LF],
                    lit ''data: [DONE]'' @ [LF, LF]]"
    by (rule trans)
  then show ?thesis
    using bridge_eval(1,2) k by blast
qed

end
